theory Spec2Isabelle
  imports Complex_Main
begin

section \<open>Python values\<close>

text \<open>
  Every value the two modules handle comes out of \<^verbatim>\<open>json.load\<close> or
  \<^verbatim>\<open>response.json()\<close>, or is built from such values, so a value is a JSON document.
  A dict is an association list in insertion order; looking a key up is \<open>map_of\<close>.
  \<^verbatim>\<open>None\<close> is \<open>JNull\<close>.
\<close>

datatype json =
    JNull
  | JBool bool
  | JInt int
  | JFloat rat
  | JStr string
  | JList "json list"
  | JObj "(string \<times> json) list"

text \<open>The exceptions the code can meet, by class.\<close>

datatype py_error =
    AttributeError
  | TypeError
  | KeyError
  | IndexError
  | ValueError
  | JSONDecodeError
  | FileNotFoundError
  | OSError
  | OverflowError
  | VendorError

text \<open>Truth value testing (\<^verbatim>\<open>if x\<close>, \<^verbatim>\<open>not x\<close>).\<close>

fun truthy :: "json \<Rightarrow> bool" where
  "truthy JNull = False"
| "truthy (JBool b) = b"
| "truthy (JInt i) = (i \<noteq> 0)"
| "truthy (JFloat r) = (r \<noteq> 0)"
| "truthy (JStr s) = (s \<noteq> [])"
| "truthy (JList xs) = (xs \<noteq> [])"
| "truthy (JObj kvs) = (kvs \<noteq> [])"

text \<open>\<^verbatim>\<open>len(x)\<close>: defined on strings, lists and dicts, a TypeError elsewhere.\<close>

fun py_len :: "json \<Rightarrow> py_error + int" where
  "py_len (JStr s) = Inr (int (length s))"
| "py_len (JList xs) = Inr (int (length xs))"
| "py_len (JObj kvs) = Inr (int (length kvs))"
| "py_len _ = Inl TypeError"

text \<open>
  \<^verbatim>\<open>for x in v\<close>: a list yields its elements, a string its characters, a dict its
  keys; anything else is not iterable.
\<close>

fun py_iter :: "json \<Rightarrow> py_error + json list" where
  "py_iter (JList xs) = Inr xs"
| "py_iter (JStr s) = Inr (map (\<lambda>c. JStr [c]) s)"
| "py_iter (JObj kvs) = Inr (map (\<lambda>kv. JStr (fst kv)) kvs)"
| "py_iter _ = Inl TypeError"

text \<open>\<^verbatim>\<open>obj.get(key, default)\<close>: only a dict has the method.\<close>

fun py_get :: "json \<Rightarrow> string \<Rightarrow> json \<Rightarrow> py_error + json" where
  "py_get (JObj kvs) k d = Inr (case map_of kvs k of None \<Rightarrow> d | Some v \<Rightarrow> v)"
| "py_get _ k d = Inl AttributeError"

text \<open>\<^verbatim>\<open>obj[key]\<close> with a string key.\<close>

fun py_subscript :: "json \<Rightarrow> string \<Rightarrow> py_error + json" where
  "py_subscript (JObj kvs) k = (case map_of kvs k of None \<Rightarrow> Inl KeyError | Some v \<Rightarrow> Inr v)"
| "py_subscript _ k = Inl TypeError"

fun is_dict :: "json \<Rightarrow> bool" where
  "is_dict (JObj kvs) = True"
| "is_dict _ = False"

text \<open>Reading a field of a stored document (used to state properties, not by the code).\<close>

fun field :: "json \<Rightarrow> string \<Rightarrow> json option" where
  "field (JObj kvs) k = map_of kvs k"
| "field _ k = None"

section \<open>The outside world\<close>

text \<open>
  A file is known by what \<^verbatim>\<open>json.load\<close> makes of it: it parses to a document, or
  its text is not JSON (\<^verbatim>\<open>json.JSONDecodeError\<close>), or it cannot be read as text at all
  (its bytes are not UTF-8, a \<^verbatim>\<open>UnicodeDecodeError\<close>, or the open fails: neither is a
  \<^verbatim>\<open>JSONDecodeError\<close>). \<^verbatim>\<open>json.dump\<close> of a document leaves a file that parses
  to that document.
\<close>

datatype file_content = Json json | NotJson | Unreadable

text \<open>
  What a write to a path does: it succeeds; or \<^verbatim>\<open>open(path, 'w')\<close> raises and the file
  is as before; or the file is opened (and truncated) and the dump raises part-way.
\<close>

datatype write_result = WriteOk | OpenFails | DumpFails

text \<open>
  The two HTTP requests, by the fields that vary: keyword, limit, offset, manufacturer id
  and bearer token of the keyword search (POST); product number, the optional
  \<^verbatim>\<open>manufacturerId\<close> query parameter and bearer token of the detail lookup (GET). The
  URL prefix and the other headers are constants of the source.
\<close>

datatype request =
    KeywordSearch string int int int json
  | ProductDetails string "int option" json

text \<open>
  What \<^verbatim>\<open>requests\<close> gives back: an exception of the transport
  (\<^verbatim>\<open>RequestException\<close>), or a response with a status code and a JSON body.
\<close>

datatype http_result = NetworkError | Response int json

text \<open>What the process does that can be observed from outside, in order.\<close>

datatype event =
    Http request
  | Sleep int
  | VendorKeywordSearch
  | Print json

record world =
  files :: "string \<Rightarrow> file_content option"
  trace :: "event list"
  clock :: nat

text \<open>
  The environment answers by the moment it is asked (\<open>clock\<close> counts the interactions
  so far): the HTTP server, the vendor library's \<^verbatim>\<open>digikey.keyword_search\<close> (which
  may store a token file, or raise), the file system on a write, the formatted UTC time,
  and Python's \<^verbatim>\<open>str\<close>. \<open>base_dir\<close> is the object's field of that name.
\<close>

record env =
  base_dir :: string
  http :: "nat \<Rightarrow> request \<Rightarrow> http_result"
  keyword_search :: "nat \<Rightarrow> (string \<Rightarrow> file_content option) \<Rightarrow> py_error + (string \<Rightarrow> file_content option)"
  write_result_at :: "nat \<Rightarrow> string \<Rightarrow> write_result"
  strftime :: "nat \<Rightarrow> string"
  py_str :: "json \<Rightarrow> string"

definition emit :: "event \<Rightarrow> world \<Rightarrow> world" where
  "emit ev w = w\<lparr>trace := trace w @ [ev], clock := Suc (clock w)\<rparr>"

text \<open>
  \<^verbatim>\<open>time.sleep(d)\<close> with an integer length: a negative one is a ValueError, and one
  whose nanoseconds do not fit 64 bits (more than 9223372036 seconds) is an OverflowError.
\<close>

definition max_sleep :: int where
  "max_sleep = 9223372036"

definition py_sleep :: "int \<Rightarrow> world \<Rightarrow> (py_error + unit) \<times> world" where
  "py_sleep d w =
     (if d < 0 then (Inl ValueError, w)
      else if max_sleep < d then (Inl OverflowError, w)
      else (Inr (), emit (Sleep d) w))"

text \<open>\<^verbatim>\<open>with open(path, 'r') as f: json.load(f)\<close>.\<close>

definition json_load :: "world \<Rightarrow> string \<Rightarrow> py_error + json" where
  "json_load w p =
     (case files w p of
        None \<Rightarrow> Inl FileNotFoundError
      | Some (Json j) \<Rightarrow> Inr j
      | Some NotJson \<Rightarrow> Inl JSONDecodeError
      | Some Unreadable \<Rightarrow> Inl OSError)"

text \<open>\<^verbatim>\<open>with open(path, 'w') as f: json.dump(j, f)\<close>.\<close>

definition json_dump :: "env \<Rightarrow> string \<Rightarrow> json \<Rightarrow> world \<Rightarrow> (py_error + unit) \<times> world" where
  "json_dump e p j w =
     (case write_result_at e (clock w) p of
        WriteOk \<Rightarrow> (Inr (), w\<lparr>files := (files w)(p \<mapsto> Json j), clock := Suc (clock w)\<rparr>)
      | OpenFails \<Rightarrow> (Inl OSError, w\<lparr>clock := Suc (clock w)\<rparr>)
      | DumpFails \<Rightarrow> (Inl OSError, w\<lparr>files := (files w)(p \<mapsto> NotJson), clock := Suc (clock w)\<rparr>))"

fun print_all :: "json list \<Rightarrow> world \<Rightarrow> world" where
  "print_all [] w = w"
| "print_all (x # xs) w = print_all xs (emit (Print x) w)"

section \<open>The store: \<^verbatim>\<open>process_products\<close> of main.py\<close>

text \<open>
  The block that the source repeats before each append (main.py 187-196, and twice in
  product_details_api.py): the stored collection, an empty one when the file is absent or
  its text is not JSON, a one-element one when the document is not a list. A file that
  cannot be read raises past the inner handler.
\<close>

definition load_existing :: "world \<Rightarrow> string \<Rightarrow> py_error + json list" where
  "load_existing w p =
     (case files w p of
        None \<Rightarrow> Inr []
      | Some (Json (JList xs)) \<Rightarrow> Inr xs
      | Some (Json j) \<Rightarrow> Inr [j]
      | Some NotJson \<Rightarrow> Inr []
      | Some Unreadable \<Rightarrow> Inl OSError)"

definition json_file_path :: "env \<Rightarrow> string" where
  "json_file_path e = base_dir e @ ''/api_responses.json''"

definition batch_data :: "env \<Rightarrow> json \<Rightarrow> int \<Rightarrow> int \<Rightarrow> int \<Rightarrow> world \<Rightarrow> json" where
  "batch_data e products offset limit n w =
     JObj [(''metadata'', JObj [
             (''url'', JStr (''https://api.digikey.com/products/v4/search/keyword?offset=''
                              @ py_str e (JInt offset) @ ''&limit='' @ py_str e (JInt limit))),
             (''offset'', JInt offset),
             (''limit'', JInt limit),
             (''product_count'', JInt n),
             (''timestamp'', JStr (strftime e (clock w)))]),
           (''products'', products)]"

text \<open>
  The body of the \<^verbatim>\<open>try\<close>: load, append, write, then the loop that logs each product
  (\<^verbatim>\<open>product.get\<close>, an AttributeError on a product that is not a dict).
\<close>

definition store_batch :: "env \<Rightarrow> json \<Rightarrow> json list \<Rightarrow> world \<Rightarrow> (py_error + unit) \<times> world" where
  "store_batch e batch items w =
     (case load_existing w (json_file_path e) of
        Inl err \<Rightarrow> (Inl err, w)
      | Inr existing_data \<Rightarrow>
          (case json_dump e (json_file_path e) (JList (existing_data @ [batch])) w of
             (Inl err, w') \<Rightarrow> (Inl err, w')
           | (Inr u, w') \<Rightarrow>
               (if list_all is_dict items then (Inr (), w') else (Inl AttributeError, w'))))"

text \<open>
  \<^verbatim>\<open>len(products)\<close> is evaluated before the \<^verbatim>\<open>try\<close>, so its TypeError leaves the
  function. Any exception of the \<^verbatim>\<open>try\<close> is caught and the products are printed. The
  function has no \<^verbatim>\<open>return\<close>: the caller gets \<^verbatim>\<open>None\<close> on both paths.
\<close>

definition process_products :: "env \<Rightarrow> json \<Rightarrow> int \<Rightarrow> int \<Rightarrow> world \<Rightarrow> (py_error + json) \<times> world" where
  "process_products e products offset limit w =
     (case py_len products of
        Inl err \<Rightarrow> (Inl err, w)
      | Inr n \<Rightarrow>
          (case py_iter products of
             Inl err \<Rightarrow> (Inl err, w)
           | Inr items \<Rightarrow>
               (case store_batch e (batch_data e products offset limit n w) items w of
                  (Inr u, w') \<Rightarrow> (Inr JNull, w')
                | (Inl err, w') \<Rightarrow> (Inr JNull, print_all items w'))))"

section \<open>Credentials\<close>

definition token_file_path :: "env \<Rightarrow> string" where
  "token_file_path e = base_dir e @ ''/token_storage.json''"

text \<open>
  \<^verbatim>\<open>DgkeySdk.token_update\<close>: one keyword search through the vendor library (which
  fetches and stores a token as a side effect), then a pause of five seconds. An exception
  of the library leaves the function.
\<close>

definition token_update :: "env \<Rightarrow> world \<Rightarrow> (py_error + unit) \<times> world" where
  "token_update e w =
     (case keyword_search e (clock w) (files w) of
        Inl err \<Rightarrow> (Inl err, emit VendorKeywordSearch w)
      | Inr fs \<Rightarrow> py_sleep 5 ((emit VendorKeywordSearch w)\<lparr>files := fs\<rparr>))"

text \<open>
  \<^verbatim>\<open>DgkeySdk.get_access_token\<close> (main.py): refresh when the token file is absent, then
  read it. A file that is still absent, is not JSON or has no \<^verbatim>\<open>access_token\<close> raises.
\<close>

definition sdk_get_access_token :: "env \<Rightarrow> world \<Rightarrow> (py_error + json) \<times> world" where
  "sdk_get_access_token e w =
     (case (if files w (token_file_path e) = None then token_update e w else (Inr (), w)) of
        (Inl err, w') \<Rightarrow> (Inl err, w')
      | (Inr u, w') \<Rightarrow>
          (case json_load w' (token_file_path e) of
             Inl err \<Rightarrow> (Inl err, w')
           | Inr data \<Rightarrow>
               (case py_subscript data ''access_token'' of
                  Inl err \<Rightarrow> (Inl err, w')
                | Inr token \<Rightarrow> (Inr token, w'))))"

text \<open>
  \<^verbatim>\<open>ProductDetailsAPI.get_access_token\<close> (product_details_api.py): when the token file is
  absent it logs an error and returns \<^verbatim>\<open>None\<close>; the class has no refresh.
\<close>

definition api_get_access_token :: "env \<Rightarrow> world \<Rightarrow> py_error + json" where
  "api_get_access_token e w =
     (if files w (token_file_path e) = None then Inr JNull
      else (case json_load w (token_file_path e) of
              Inl err \<Rightarrow> Inl err
            | Inr data \<Rightarrow> py_subscript data ''access_token''))"

section \<open>Requests with retries\<close>

text \<open>
  An attempt fails when the transport raises or \<^verbatim>\<open>raise_for_status\<close> does, which is for
  the status codes 400 to 599.
\<close>

fun attempt_failed :: "http_result \<Rightarrow> bool" where
  "attempt_failed NetworkError = True"
| "attempt_failed (Response status body) = (400 \<le> status \<and> status < 600)"

fun response_body :: "http_result \<Rightarrow> json" where
  "response_body (Response status body) = body"
| "response_body NetworkError = JNull"

fun status_code :: "http_result \<Rightarrow> int option" where
  "status_code (Response status body) = Some status"
| "status_code NetworkError = None"

text \<open>
  The \<^verbatim>\<open>while retries < max_retries\<close> loop of \<^verbatim>\<open>_search_product\<close> (main.py 118-140).
  A failed attempt counts, sleeps \<^verbatim>\<open>backoff_factor ** retries\<close> and refreshes the token,
  all inside the \<^verbatim>\<open>except\<close> block: an exception of the sleep or of the refresh leaves
  the function. The request keeps the token that was read before the loop.
\<close>

function search_product_loop ::
  "env \<Rightarrow> request \<Rightarrow> int \<Rightarrow> int \<Rightarrow> nat \<Rightarrow> world \<Rightarrow> (py_error + json) \<times> world" where
  "search_product_loop e req max_retries backoff_factor retries w =
     (if int retries < max_retries then
        (if attempt_failed (http e (clock w) req) then
           (case py_sleep (backoff_factor ^ Suc retries) (emit (Http req) w) of
              (Inl err, w') \<Rightarrow> (Inl err, w')
            | (Inr u, w') \<Rightarrow>
                (case token_update e w' of
                   (Inl err, w'') \<Rightarrow> (Inl err, w'')
                 | (Inr u', w'') \<Rightarrow>
                     search_product_loop e req max_retries backoff_factor (Suc retries) w''))
         else (Inr (response_body (http e (clock w) req)), emit (Http req) w))
      else (Inr (JObj []), w))"
  by pat_completeness auto
termination
  by (relation "measure (\<lambda>(e, req, max_retries, backoff_factor, retries, w). nat (max_retries - int retries))") auto

declare search_product_loop.simps [simp del]

text \<open>\<^verbatim>\<open>_search_product\<close>; the parameter \<^verbatim>\<open>user_id\<close> is not used by the source.\<close>

definition search_product ::
  "env \<Rightarrow> string \<Rightarrow> int \<Rightarrow> int \<Rightarrow> int \<Rightarrow> int \<Rightarrow> int \<Rightarrow> world \<Rightarrow> (py_error + json) \<times> world" where
  "search_product e keyword limit offset manufactured_id max_retries backoff_factor w =
     (case sdk_get_access_token e w of
        (Inl err, w') \<Rightarrow> (Inl err, w')
      | (Inr access_token, w') \<Rightarrow>
          search_product_loop e (KeywordSearch keyword limit offset manufactured_id access_token)
            max_retries backoff_factor 0 w')"

text \<open>
  The loop of \<^verbatim>\<open>get_product_details\<close> (product_details_api.py 76-118). A 404 returns
  the empty dict at once. The two \<^verbatim>\<open>except\<close> blocks do the same: count, and sleep only
  when another attempt follows. There is no refresh.
\<close>

function product_details_loop ::
  "env \<Rightarrow> request \<Rightarrow> int \<Rightarrow> int \<Rightarrow> nat \<Rightarrow> world \<Rightarrow> (py_error + json) \<times> world" where
  "product_details_loop e req max_retries backoff_factor retries w =
     (if int retries < max_retries then
        (if status_code (http e (clock w) req) = Some 404 then (Inr (JObj []), emit (Http req) w)
         else if attempt_failed (http e (clock w) req) then
           (if int (Suc retries) < max_retries then
              (case py_sleep (backoff_factor ^ Suc retries) (emit (Http req) w) of
                 (Inl err, w') \<Rightarrow> (Inl err, w')
               | (Inr u, w') \<Rightarrow>
                   product_details_loop e req max_retries backoff_factor (Suc retries) w')
            else product_details_loop e req max_retries backoff_factor (Suc retries) (emit (Http req) w))
         else (Inr (response_body (http e (clock w) req)), emit (Http req) w))
      else (Inr (JObj []), w))"
  by pat_completeness auto
termination
  by (relation "measure (\<lambda>(e, req, max_retries, backoff_factor, retries, w). nat (max_retries - int retries))") auto

declare product_details_loop.simps [simp del]

text \<open>
  The query parameters: \<^verbatim>\<open>manufacturerId\<close> is sent when the argument is truthy
  (neither \<^verbatim>\<open>None\<close> nor 0).
\<close>

definition query_params :: "int option \<Rightarrow> int option" where
  "query_params manufacturer_id =
     (case manufacturer_id of None \<Rightarrow> None | Some m \<Rightarrow> if m = 0 then None else Some m)"

text \<open>
  \<^verbatim>\<open>get_product_details\<close>: without a token it returns the empty dict and sends
  nothing.
\<close>

definition get_product_details ::
  "env \<Rightarrow> string \<Rightarrow> int option \<Rightarrow> int \<Rightarrow> int \<Rightarrow> world \<Rightarrow> (py_error + json) \<times> world" where
  "get_product_details e product_number manufacturer_id max_retries backoff_factor w =
     (case api_get_access_token e w of
        Inl err \<Rightarrow> (Inl err, w)
      | Inr access_token \<Rightarrow>
          (if \<not> truthy access_token then (Inr (JObj []), w)
           else product_details_loop e
                  (ProductDetails product_number (query_params manufacturer_id) access_token)
                  max_retries backoff_factor 0 w))"

section \<open>Pagination: \<^verbatim>\<open>search_products\<close> of main.py\<close>

text \<open>\<^verbatim>\<open>offset >= product_count\<close>: an integer compares with a number, not with anything else.\<close>

fun py_ge :: "int \<Rightarrow> json \<Rightarrow> py_error + bool" where
  "py_ge i (JInt n) = Inr (i \<ge> n)"
| "py_ge i (JFloat r) = Inr (of_int i \<ge> r)"
| "py_ge i (JBool b) = Inr (i \<ge> (if b then 1 else 0))"
| "py_ge i _ = Inl TypeError"

text \<open>
  The \<^verbatim>\<open>while True\<close> loop for one category, from a given offset. The server decides
  when it ends, so it is a partial function: \<open>None\<close> is a loop that never ends.
  \<^verbatim>\<open>_search_product\<close> is called with its default \<^verbatim>\<open>max_retries=10\<close> and
  \<^verbatim>\<open>backoff_factor=2\<close>.
\<close>

partial_function (option) search_pages ::
  "env \<Rightarrow> string \<Rightarrow> int \<Rightarrow> int \<Rightarrow> int \<Rightarrow> world \<Rightarrow> ((py_error + json) \<times> world) option" where
  "search_pages e category manufactured_id limit offset w =
     (case search_product e category limit offset manufactured_id 10 2 w of
        (Inl err, w1) \<Rightarrow> Some (Inl err, w1)
      | (Inr response, w1) \<Rightarrow>
          (if \<not> truthy response then Some (Inr JNull, w1)
           else
             (case py_get response ''ProductsCount'' (JInt 0) of
                Inl err \<Rightarrow> Some (Inl err, w1)
              | Inr product_count \<Rightarrow>
                  (case py_get response ''Products'' (JList []) of
                     Inl err \<Rightarrow> Some (Inl err, w1)
                   | Inr products \<Rightarrow>
                       (case py_len products of
                          Inl err \<Rightarrow> Some (Inl err, w1)
                        | Inr n \<Rightarrow>
                            (case process_products e products offset limit w1 of
                               (Inl err, w2) \<Rightarrow> Some (Inl err, w2)
                             | (Inr u, w2) \<Rightarrow>
                                 (case py_ge (offset + limit) product_count of
                                    Inl err \<Rightarrow> Some (Inl err, w2)
                                  | Inr stop \<Rightarrow>
                                      (if stop then Some (Inr JNull, w2)
                                       else search_pages e category manufactured_id limit
                                              (offset + limit) w2))))))))"

text \<open>\<^verbatim>\<open>search_products\<close>: every category from offset 0 with a page size of 50.\<close>

fun search_products ::
  "env \<Rightarrow> string list \<Rightarrow> int \<Rightarrow> world \<Rightarrow> ((py_error + json) \<times> world) option" where
  "search_products e [] manufactured_id w = Some (Inr JNull, w)"
| "search_products e (category # categories) manufactured_id w =
     (case search_pages e category manufactured_id 50 0 w of
        None \<Rightarrow> None
      | Some (Inl err, w') \<Rightarrow> Some (Inl err, w')
      | Some (Inr u, w') \<Rightarrow> search_products e categories manufactured_id w')"

section \<open>The record mapper: \<^verbatim>\<open>map_product_details_to_structure\<close>\<close>

text \<open>Sequencing of computations that may raise: the first exception wins.\<close>

definition and_then :: "py_error + 'a \<Rightarrow> ('a \<Rightarrow> py_error + 'b) \<Rightarrow> py_error + 'b" where
  "and_then m f = (case m of Inl err \<Rightarrow> Inl err | Inr v \<Rightarrow> f v)"

text \<open>
  \<^verbatim>\<open>v[i]\<close> with an integer index: an element of a list, a character of a string; a
  dict loaded from JSON has no integer key; anything else is not subscriptable.
\<close>

fun py_index :: "json \<Rightarrow> nat \<Rightarrow> py_error + json" where
  "py_index (JList xs) i = (if i < length xs then Inr (xs ! i) else Inl IndexError)"
| "py_index (JStr s) i = (if i < length s then Inr (JStr [s ! i]) else Inl IndexError)"
| "py_index (JObj kvs) i = Inl KeyError"
| "py_index _ i = Inl TypeError"

text \<open>\<^verbatim>\<open>sep.join(parts)\<close> on strings.\<close>

fun join_with :: "string \<Rightarrow> string list \<Rightarrow> string" where
  "join_with sep [] = []"
| "join_with sep [x] = x"
| "join_with sep (x # y # ys) = x @ sep @ join_with sep (y # ys)"

text \<open>\<^verbatim>\<open>join\<close> takes strings only: a TypeError on any other item.\<close>

fun str_items :: "json list \<Rightarrow> py_error + string list" where
  "str_items [] = Inr []"
| "str_items (JStr s # xs) = (case str_items xs of Inl err \<Rightarrow> Inl err | Inr ss \<Rightarrow> Inr (s # ss))"
| "str_items (x # xs) = Inl TypeError"

text \<open>\<^verbatim>\<open>needle in text\<close> on strings.\<close>

fun is_substring :: "string \<Rightarrow> string \<Rightarrow> bool" where
  "is_substring p [] = (p = [])"
| "is_substring p (c # cs) = (take (length p) (c # cs) = p \<or> is_substring p cs)"

fun safe_get :: "json \<Rightarrow> string \<Rightarrow> json \<Rightarrow> json" where
  "safe_get (JObj kvs) k d = (case map_of kvs k of None \<Rightarrow> d | Some v \<Rightarrow> v)"
| "safe_get obj k d = d"

fun find_parameter :: "json list \<Rightarrow> string \<Rightarrow> json \<Rightarrow> py_error + json" where
  "find_parameter [] parameter_text d = Inr d"
| "find_parameter (param # params) parameter_text d =
     (case py_get param ''ParameterText'' JNull of
        Inl err \<Rightarrow> Inl err
      | Inr t \<Rightarrow>
          (if t = JStr parameter_text then py_get param ''ValueText'' d
           else find_parameter params parameter_text d))"

definition get_parameter_value :: "json \<Rightarrow> string \<Rightarrow> json \<Rightarrow> py_error + json" where
  "get_parameter_value parameters parameter_text d =
     (if \<not> truthy parameters then Inr d
      else and_then (py_iter parameters) (\<lambda>params. find_parameter params parameter_text d))"

text \<open>
  The test that opens both \<^verbatim>\<open>format_bulk_prices\<close> and \<^verbatim>\<open>get_base_price\<close>:
  \<^verbatim>\<open>not variations or not variations[0].get('StandardPricing')\<close>. The result is the
  pricing table when there is a truthy one.
\<close>

definition standard_pricing :: "json \<Rightarrow> py_error + json option" where
  "standard_pricing variations =
     (if \<not> truthy variations then Inr None
      else and_then (py_index variations 0) (\<lambda>first.
           and_then (py_get first ''StandardPricing'' JNull) (\<lambda>pricing.
             Inr (if truthy pricing then Some pricing else None))))"

fun price_tier_strings :: "env \<Rightarrow> json list \<Rightarrow> py_error + string list" where
  "price_tier_strings e [] = Inr []"
| "price_tier_strings e (price_tier # price_tiers) =
     (case py_get price_tier ''BreakQuantity'' (JInt 0) of
        Inl err \<Rightarrow> Inl err
      | Inr qty \<Rightarrow>
          (case py_get price_tier ''UnitPrice'' (JInt 0) of
             Inl err \<Rightarrow> Inl err
           | Inr price \<Rightarrow>
               (case price_tier_strings e price_tiers of
                  Inl err \<Rightarrow> Inl err
                | Inr rest \<Rightarrow> Inr ((py_str e qty @ ''+-'' @ py_str e price) # rest))))"

definition format_bulk_prices :: "env \<Rightarrow> json \<Rightarrow> py_error + json" where
  "format_bulk_prices e variations =
     and_then (standard_pricing variations) (\<lambda>sp.
       case sp of
         None \<Rightarrow> Inr (JStr [])
       | Some pricing \<Rightarrow>
           and_then (py_iter pricing) (\<lambda>price_tiers.
           and_then (price_tier_strings e price_tiers) (\<lambda>pricing_list.
             Inr (JStr (join_with '';'' pricing_list)))))"

definition get_base_price :: "json \<Rightarrow> py_error + json" where
  "get_base_price variations =
     and_then (standard_pricing variations) (\<lambda>sp.
       case sp of
         None \<Rightarrow> Inr (JInt 0)
       | Some pricing \<Rightarrow>
           and_then (py_index pricing 0) (\<lambda>first_pricing.
             py_get first_pricing ''UnitPrice'' (JInt 0)))"

definition format_photos :: "env \<Rightarrow> json \<Rightarrow> json" where
  "format_photos e photo_url =
     (if truthy photo_url then JStr (py_str e photo_url @ ''|'' @ py_str e photo_url) else JStr [])"

text \<open>\<^verbatim>\<open>startswith\<close> is a method of strings: an AttributeError on another truthy value.\<close>

fun format_datasheets :: "json \<Rightarrow> py_error + json" where
  "format_datasheets (JStr s) =
     Inr (JStr (if s = [] then [] else if take 2 s = ''//'' then ''https:'' @ s else s))"
| "format_datasheets v = (if truthy v then Inl AttributeError else Inr (JStr []))"

definition child_name :: "json \<Rightarrow> nat \<Rightarrow> py_error + json" where
  "child_name child_categories i =
     and_then (py_index child_categories i) (\<lambda>c. py_get c ''Name'' (JStr []))"

definition get_category_hierarchy :: "json \<Rightarrow> py_error + (json \<times> json \<times> json \<times> json \<times> json)" where
  "get_category_hierarchy category =
     (if \<not> truthy category then Inr (JStr [], JStr [], JStr [], JStr [], JStr [])
      else
        and_then (py_get category ''Name'' (JStr [])) (\<lambda>main_category.
        and_then (py_get category ''ChildCategories'' (JList [])) (\<lambda>child_categories.
          if \<not> truthy child_categories
          then Inr (main_category, JStr [], JStr [], JStr [], JStr [])
          else
            and_then (child_name child_categories 0) (\<lambda>subcategory.
            and_then (py_len child_categories) (\<lambda>n.
            and_then (if n > 1 then child_name child_categories 1 else Inr (JStr [])) (\<lambda>sub_subcategory.
            and_then (if n > 2 then child_name child_categories 2 else Inr (JStr [])) (\<lambda>sub_sub_subcategory.
            and_then (if n > 3 then child_name child_categories 3 else Inr (JStr [])) (\<lambda>sub_sub_sub_subcategory.
              Inr (main_category, subcategory, sub_subcategory, sub_sub_subcategory,
                   sub_sub_sub_subcategory)))))))))"

fun format_other_names :: "json \<Rightarrow> py_error + json" where
  "format_other_names (JList xs) =
     (if xs = [] then Inr (JStr [])
      else and_then (str_items xs) (\<lambda>names. Inr (JStr (join_with '','' names))))"
| "format_other_names v = Inr (JStr [])"

text \<open>
  A dict display evaluates its values in order; the first one that raises ends it.
\<close>

fun collect :: "(string \<times> (py_error + json)) list \<Rightarrow> py_error + (string \<times> json) list" where
  "collect [] = Inr []"
| "collect ((k, Inl err) # rest) = Inl err"
| "collect ((k, Inr v) # rest) =
     (case collect rest of Inl err \<Rightarrow> Inl err | Inr kvs \<Rightarrow> Inr ((k, v) # kvs))"

text \<open>\<^verbatim>\<open>product.get(key, default)\<close> on a product that is a dict with these items.\<close>

definition product_get :: "(string \<times> json) list \<Rightarrow> string \<Rightarrow> json \<Rightarrow> json" where
  "product_get attrs k d = (case map_of attrs k of None \<Rightarrow> d | Some v \<Rightarrow> v)"

text \<open>
  The dict display \<^verbatim>\<open>mapped_product = {...}\<close> (lines 229-283), each key with the
  computation of its value, for a product with the items \<open>attrs\<close> and the category
  names found before.
\<close>

definition mapped_entries ::
  "env \<Rightarrow> (string \<times> json) list \<Rightarrow> json \<times> json \<times> json \<times> json \<times> json
   \<Rightarrow> (string \<times> (py_error + json)) list" where
  "mapped_entries e attrs cats =
     (let pget = product_get attrs;
          parameters = pget ''Parameters'' (JList []);
          variations = pget ''ProductVariations'' (JList []);
          description = pget ''Description'' (JObj []);
          manufacturer = pget ''Manufacturer'' (JObj []);
          classifications = pget ''Classifications'' (JObj []);
          series = pget ''Series'' (JObj []);
          param = (\<lambda>t. get_parameter_value parameters t (JStr []))
      in case cats of (main_cat, sub_cat, sub_sub_cat, sub_sub_sub_cat, sub_sub_sub_sub_cat) \<Rightarrow>
         [(''Product_Name_En'', Inr (safe_get description ''ProductDescription'' (JStr []))),
          (''ManufacturerPartNumber'', Inr (pget ''ManufacturerProductNumber'' (JStr []))),
          (''Manufacturer_Name'', Inr (safe_get manufacturer ''Name'' (JStr []))),
          (''Series'', Inr (safe_get series ''Name'' (JStr []))),
          (''ShortDescription_En'', Inr (safe_get description ''ProductDescription'' (JStr []))),
          (''Description_En'', Inr (safe_get description ''DetailedDescription'' (JStr []))),
          (''CountryOfOrigin'', Inr (JStr [])),
          (''ExpirationDate'', Inr (JStr [])),
          (''RoHSCompliant'', Inr (safe_get classifications ''RohsStatus'' (JStr []))),
          (''BasePrice'', get_base_price variations),
          (''BulkPrices'', format_bulk_prices e variations),
          (''StockQuantity'', Inr (pget ''QuantityAvailable'' (JInt 0))),
          (''LeadTimeInDays'',
             Inr (if truthy (pget ''ManufacturerLeadWeeks'' JNull)
                  then JStr (py_str e (pget ''ManufacturerLeadWeeks'' (JStr [])) @ '' Weeks'')
                  else JStr [])),
          (''Manufacturer_Standard_Package'',
             if truthy variations
             then and_then (py_index variations 0) (\<lambda>v. py_get v ''StandardPackage'' (JStr []))
             else Inr (JStr [])),
          (''PackagingType'',
             if truthy variations
             then and_then (py_index variations 0) (\<lambda>v.
                  and_then (py_get v ''PackageType'' (JObj [])) (\<lambda>t. py_get t ''Name'' (JStr [])))
             else Inr (JStr [])),
          (''Warnings'', Inr (JStr [])),
          (''Photos'', Inr (format_photos e (pget ''PhotoUrl'' JNull))),
          (''Photos360'', Inr (JStr [])),
          (''Datasheets'', format_datasheets (pget ''DatasheetUrl'' JNull)),
          (''Environmental_Information'', Inr (JStr [])),
          (''Featured_Product'', Inr (JStr [])),
          (''MSDS_Material_Safety_Datasheet'', Inr (JStr [])),
          (''Product_Brief'', Inr (JStr [])),
          (''Category'', Inr main_cat),
          (''Subcategory'', Inr sub_cat),
          (''Sub-Subcategory'', Inr sub_sub_cat),
          (''Sub-sub-subcategory'', Inr sub_sub_sub_cat),
          (''Sub-sub-sub-subcategory'', Inr sub_sub_sub_sub_cat),
          (''Moisture_Sensitivity_Level_(MSL)'',
             Inr (safe_get classifications ''MoistureSensitivityLevel'' (JStr []))),
          (''REACH_Status'', Inr (safe_get classifications ''ReachStatus'' (JStr []))),
          (''ECCN'', Inr (safe_get classifications ''ExportControlClassNumber'' (JStr []))),
          (''HTSUS'', Inr (safe_get classifications ''HtsusCode'' (JStr []))),
          (''Other_Names'', format_other_names (pget ''OtherNames'' JNull)),
          (''Alternate_Color'', Inr (JStr [])),
          (''Alternate_Length'', Inr (JStr [])),
          (''Type'', param ''Type''),
          (''Part_Status'', Inr (safe_get (pget ''ProductStatus'' (JObj [])) ''Status'' (JStr []))),
          (''Color'', param ''Color''),
          (''Width'', param ''Width''),
          (''Length'', param ''Length''),
          (''Shelf_Life'', param ''Shelf Life''),
          (''Shelf_Life_Start'', Inr (JStr [])),
          (''Storage/Refrigeration_Temperature'', param ''Storage/Refrigeration Temperature''),
          (''Features'', param ''Features''),
          (''Base_Product_Number'',
             Inr (safe_get (pget ''BaseProductNumber'' (JObj [])) ''Name'' (JStr []))),
          (''Material'', param ''Material''),
          (''Shrinkage_Ratio'', param ''Shrinkage Ratio''),
          (''Inner_Diameter_-_Supplied'', param ''Inner Diameter - Supplied''),
          (''Inner_Diameter_-_Recovered'', param ''Inner Diameter - Recovered''),
          (''Recovered_Wall_Thickness'', param ''Recovered Wall Thickness''),
          (''Operating_Temperature'', param ''Operating Temperature''),
          (''Shrink_Temperature'', param ''Shrink Temperature''),
          (''Link'', Inr (pget ''ProductUrl'' (JStr [])))])"

text \<open>
  The part of the function after \<^verbatim>\<open>product = api_response['Product']\<close>. The first
  \<^verbatim>\<open>product.get\<close> raises on a product that is not a dict. The category names are
  computed before the display.
\<close>

definition map_product :: "env \<Rightarrow> json \<Rightarrow> py_error + json" where
  "map_product e product =
     (case product of
        JObj attrs \<Rightarrow>
          and_then (get_category_hierarchy (product_get attrs ''Category'' (JObj []))) (\<lambda>cats.
          and_then (collect (mapped_entries e attrs cats)) (\<lambda>mapped_product.
            Inr (JObj mapped_product)))
      | _ \<Rightarrow> Inl AttributeError)"

text \<open>
  The guard \<^verbatim>\<open>if not api_response or 'Product' not in api_response\<close> and the subscript
  after it. \<^verbatim>\<open>in\<close> tests the keys of a dict, the items of a list, the substrings of a
  string, and raises on a number; a string subscript exists on a dict only.
\<close>

fun map_product_details_to_structure :: "env \<Rightarrow> json \<Rightarrow> py_error + json" where
  "map_product_details_to_structure e (JObj kvs) =
     (case map_of kvs ''Product'' of
        None \<Rightarrow> Inr (JObj [])
      | Some product \<Rightarrow> map_product e product)"
| "map_product_details_to_structure e (JList xs) =
     (if JStr ''Product'' \<in> set xs then Inl TypeError else Inr (JObj []))"
| "map_product_details_to_structure e (JStr s) =
     (if is_substring ''Product'' s then Inl TypeError else Inr (JObj []))"
| "map_product_details_to_structure e v =
     (if truthy v then Inl TypeError else Inr (JObj []))"

text \<open>The keys of the mapped record, in the order of the source.\<close>

definition output_keys :: "string list" where
  "output_keys =
     [''Product_Name_En'', ''ManufacturerPartNumber'', ''Manufacturer_Name'', ''Series'',
      ''ShortDescription_En'', ''Description_En'', ''CountryOfOrigin'', ''ExpirationDate'',
      ''RoHSCompliant'', ''BasePrice'', ''BulkPrices'', ''StockQuantity'', ''LeadTimeInDays'',
      ''Manufacturer_Standard_Package'', ''PackagingType'', ''Warnings'', ''Photos'',
      ''Photos360'', ''Datasheets'', ''Environmental_Information'', ''Featured_Product'',
      ''MSDS_Material_Safety_Datasheet'', ''Product_Brief'', ''Category'', ''Subcategory'',
      ''Sub-Subcategory'', ''Sub-sub-subcategory'', ''Sub-sub-sub-subcategory'',
      ''Moisture_Sensitivity_Level_(MSL)'', ''REACH_Status'', ''ECCN'', ''HTSUS'',
      ''Other_Names'', ''Alternate_Color'', ''Alternate_Length'', ''Type'', ''Part_Status'',
      ''Color'', ''Width'', ''Length'', ''Shelf_Life'', ''Shelf_Life_Start'',
      ''Storage/Refrigeration_Temperature'', ''Features'', ''Base_Product_Number'',
      ''Material'', ''Shrinkage_Ratio'', ''Inner_Diameter_-_Supplied'',
      ''Inner_Diameter_-_Recovered'', ''Recovered_Wall_Thickness'', ''Operating_Temperature'',
      ''Shrink_Temperature'', ''Link'']"

fun keys_of :: "json \<Rightarrow> string list" where
  "keys_of (JObj kvs) = map fst kvs"
| "keys_of v = []"

section \<open>The detail path: \<^verbatim>\<open>process_and_store_product_details\<close>\<close>

definition mapped_file_path :: "env \<Rightarrow> string" where
  "mapped_file_path e = base_dir e @ ''/product_details_mapped.json''"

definition raw_file_path :: "env \<Rightarrow> string" where
  "raw_file_path e = base_dir e @ ''/product_details_raw.json''"






section \<open>The vendor's schema, as far as the mapper reads it\<close>

text \<open>
  These predicates are not code of the repository: they describe the products on which
  the mapper does not raise. A computation is \<open>is_ok\<close> when it returns.
\<close>

fun is_ok :: "py_error + 'a \<Rightarrow> bool" where
  "is_ok (Inr v) = True"
| "is_ok (Inl err) = False"

fun is_str :: "json \<Rightarrow> bool" where
  "is_str (JStr s) = True"
| "is_str v = False"

fun dict_list :: "json \<Rightarrow> bool" where
  "dict_list (JList xs) = list_all is_dict xs"
| "dict_list v = False"

fun str_list :: "json \<Rightarrow> bool" where
  "str_list (JList xs) = list_all is_str xs"
| "str_list v = False"

definition absent_or :: "(json \<Rightarrow> bool) \<Rightarrow> json option \<Rightarrow> bool" where
  "absent_or P v = (case v of None \<Rightarrow> True | Some x \<Rightarrow> P x)"

text \<open>
  A product is well formed when it is a dict in which, where the key is present,
  \<^verbatim>\<open>Parameters\<close> is a list of dicts, the first item of \<^verbatim>\<open>ProductVariations\<close>
  is a dict whose \<^verbatim>\<open>StandardPricing\<close> is a list of dicts and whose
  \<^verbatim>\<open>PackageType\<close> is a dict, \<^verbatim>\<open>Category\<close> is a dict whose
  \<^verbatim>\<open>ChildCategories\<close> is a list of dicts, \<^verbatim>\<open>DatasheetUrl\<close> is a string and
  \<^verbatim>\<open>OtherNames\<close> is a list of strings.
\<close>

definition well_formed_variation :: "json \<Rightarrow> bool" where
  "well_formed_variation v =
     (is_dict v
      \<and> absent_or dict_list (field v ''StandardPricing'')
      \<and> absent_or is_dict (field v ''PackageType''))"

fun well_formed_variations :: "json \<Rightarrow> bool" where
  "well_formed_variations (JList []) = True"
| "well_formed_variations (JList (v # vs)) = well_formed_variation v"
| "well_formed_variations v = False"

definition well_formed_category :: "json \<Rightarrow> bool" where
  "well_formed_category c = (is_dict c \<and> absent_or dict_list (field c ''ChildCategories''))"

definition well_formed_product :: "json \<Rightarrow> bool" where
  "well_formed_product p =
     (is_dict p
      \<and> absent_or dict_list (field p ''Parameters'')
      \<and> absent_or well_formed_variations (field p ''ProductVariations'')
      \<and> absent_or well_formed_category (field p ''Category'')
      \<and> absent_or is_str (field p ''DatasheetUrl'')
      \<and> absent_or str_list (field p ''OtherNames''))"

section \<open>Observations on a run\<close>

text \<open>
  The requests sent, the lengths slept and the number of refreshes (calls of the vendor
  library's keyword search by \<^verbatim>\<open>token_update\<close>) in a trace.
\<close>

fun requests :: "event list \<Rightarrow> request list" where
  "requests [] = []"
| "requests (Http r # evs) = r # requests evs"
| "requests (ev # evs) = requests evs"

fun sleeps :: "event list \<Rightarrow> int list" where
  "sleeps [] = []"
| "sleeps (Sleep d # evs) = d # sleeps evs"
| "sleeps (ev # evs) = sleeps evs"

fun refreshes :: "event list \<Rightarrow> nat" where
  "refreshes [] = 0"
| "refreshes (VendorKeywordSearch # evs) = Suc (refreshes evs)"
| "refreshes (ev # evs) = refreshes evs"



text \<open>
  A page fetch that succeeds and reports a total: the attempt does not fail, the body has
  \<^verbatim>\<open>ProductsCount\<close> equal to the total, and \<^verbatim>\<open>Products\<close> is a list or is absent.
\<close>

definition page_reports :: "int \<Rightarrow> http_result \<Rightarrow> bool" where
  "page_reports total_count r =
     (\<not> attempt_failed r
      \<and> field (response_body r) ''ProductsCount'' = Some (JInt total_count)
      \<and> (case field (response_body r) ''Products'' of
            None \<Rightarrow> True | Some (JList ps) \<Rightarrow> True | Some v \<Rightarrow> False))"

text \<open>
  The number of pages of a result set: \<open>ceil (total_count / limit)\<close>, and one page when
  that is zero.
\<close>

definition page_count :: "int \<Rightarrow> int \<Rightarrow> nat" where
  "page_count total_count limit = max 1 (nat ((total_count + limit - 1) div limit))"

text \<open>
  What a run that may not end left behind: its result, its trace, a file. And the
  \<^verbatim>\<open>Products\<close> of a response body, as \<^verbatim>\<open>response.get('Products', [])\<close> reads
  them from a dict.
\<close>

definition result_of :: "('a \<times> world) option \<Rightarrow> 'a option" where
  "result_of run = (case run of None \<Rightarrow> None | Some (r, w) \<Rightarrow> Some r)"

definition trace_after :: "('a \<times> world) option \<Rightarrow> event list" where
  "trace_after run = (case run of None \<Rightarrow> [] | Some (r, w) \<Rightarrow> trace w)"

definition file_after :: "('a \<times> world) option \<Rightarrow> string \<Rightarrow> file_content option" where
  "file_after run p = (case run of None \<Rightarrow> None | Some (r, w) \<Rightarrow> files w p)"

definition products_of :: "json \<Rightarrow> json" where
  "products_of body = (case field body ''Products'' of None \<Rightarrow> JList [] | Some v \<Rightarrow> v)"

section \<open>Example environments\<close>

text \<open>Decimal digits of a number, as \<^verbatim>\<open>str\<close> prints an integer.\<close>

fun decimal :: "nat \<Rightarrow> string" where
  "decimal n = (if n < 10 then [char_of (48 + n)] else decimal (n div 10) @ [char_of (48 + n mod 10)])"

declare decimal.simps [simp del]

text \<open>
  Python's \<^verbatim>\<open>str\<close> on the values the examples format: None, booleans, integers and
  strings.
\<close>

fun demo_str :: "json \<Rightarrow> string" where
  "demo_str JNull = ''None''"
| "demo_str (JBool b) = (if b then ''True'' else ''False'')"
| "demo_str (JInt i) = (if i < 0 then CHR ''-'' # decimal (nat (- i)) else decimal (nat i))"
| "demo_str (JStr s) = s"
| "demo_str _ = []"

text \<open>
  An environment where the network is down, the vendor library raises and every write
  succeeds; the other examples change one answer of it.
\<close>

definition demo_env :: env where
  "demo_env = \<lparr>base_dir = ''/srv/dkey'',
                http = (\<lambda>k r. NetworkError),
                keyword_search = (\<lambda>k fs. Inl VendorError),
                write_result_at = (\<lambda>k p. WriteOk),
                strftime = (\<lambda>k. ''2025-01-01 00:00:00''),
                py_str = demo_str\<rparr>"

definition readonly_env :: env where
  "readonly_env = demo_env\<lparr>write_result_at := (\<lambda>k p. OpenFails)\<rparr>"

definition empty_world :: world where
  "empty_world = \<lparr>files = Map.empty, trace = [], clock = 0\<rparr>"

definition demo_product :: json where
  "demo_product = JObj [(''ManufacturerPartNumber'', JStr ''LM358'')]"

text \<open>A cached credential, and worlds that hold it.\<close>

definition demo_token :: json where
  "demo_token = JObj [(''access_token'', JStr ''t0k3n'')]"

definition token_world :: world where
  "token_world = empty_world\<lparr>files := [''/srv/dkey/token_storage.json'' \<mapsto> Json demo_token]\<rparr>"

text \<open>A store that already holds one batch.\<close>

definition stored_world :: world where
  "stored_world = empty_world\<lparr>files := [''/srv/dkey/api_responses.json'' \<mapsto> Json (JList [JStr ''earlier batch''])]\<rparr>"


text \<open>A detail response of the vendor, and a server that always answers with it.\<close>

definition demo_detail_product :: json where
  "demo_detail_product =
     JObj [
       (''ManufacturerProductNumber'', JStr ''LM358''),
       (''Description'', JObj [(''ProductDescription'', JStr ''Op amp''),
                               (''DetailedDescription'', JStr ''Dual op amp'')]),
       (''Manufacturer'', JObj [(''Id'', JInt 296), (''Name'', JStr ''TI'')]),
       (''QuantityAvailable'', JInt 1200),
       (''ManufacturerLeadWeeks'', JStr ''6''),
       (''PhotoUrl'', JStr ''https://img/lm358.jpg''),
       (''DatasheetUrl'', JStr ''//docs/lm358.pdf''),
       (''ProductUrl'', JStr ''https://www.digikey.com/lm358''),
       (''ProductVariations'', JList [JObj [
           (''PackageType'', JObj [(''Name'', JStr ''Tube'')]),
           (''StandardPackage'', JInt 50),
           (''StandardPricing'', JList [
              JObj [(''BreakQuantity'', JInt 1), (''UnitPrice'', JInt 2)],
              JObj [(''BreakQuantity'', JInt 100), (''UnitPrice'', JInt 1)]])]]),
       (''Category'', JObj [(''Name'', JStr ''Integrated Circuits''),
           (''ChildCategories'', JList [JObj [(''Name'', JStr ''Linear'')],
                                        JObj [(''Name'', JStr ''Amplifiers'')]])]),
       (''Classifications'', JObj [(''RohsStatus'', JStr ''ROHS3 Compliant'')]),
       (''OtherNames'', JList [JStr ''296-1395-5'', JStr ''LM358P'']),
       (''ProductStatus'', JObj [(''Status'', JStr ''Active'')]),
       (''Parameters'', JList [
           JObj [(''ParameterText'', JStr ''Type''), (''ValueText'', JStr ''General Purpose'')],
           JObj [(''ParameterText'', JStr ''Operating Temperature''), (''ValueText'', JStr ''0C ~ 70C'')]])]"

definition demo_details :: json where
  "demo_details = JObj [(''Product'', demo_detail_product)]"


text \<open>A server that answers 404 to everything.\<close>

definition not_found_env :: env where
  "not_found_env = demo_env\<lparr>http := (\<lambda>k r. Response 404 (JObj [(''detail'', JStr ''Not Found'')]))\<rparr>"

text \<open>A vendor library whose keyword search stores a fresh token file.\<close>

definition refreshing_env :: env where
  "refreshing_env = demo_env\<lparr>keyword_search := (\<lambda>k fs. Inr (fs(''/srv/dkey/token_storage.json'' \<mapsto> Json demo_token)))\<rparr>"



text \<open>
  A server that answers every search with the same total and the same page of products.
\<close>

definition shop_env :: "int \<Rightarrow> json list \<Rightarrow> env" where
  "shop_env total_count products =
     demo_env\<lparr>http := (\<lambda>k r. Response 200
        (JObj [(''ProductsCount'', JInt total_count), (''Products'', JList products)]))\<rparr>"

section \<open>Properties of the record mapper\<close>

lemma is_ok_iff: "is_ok r \<longleftrightarrow> (\<exists>v. r = Inr v)"
  by (cases r) simp_all

lemma collect_keys: "collect xs = Inr kvs \<Longrightarrow> map fst kvs = map fst xs"
  by (induction xs arbitrary: kvs rule: collect.induct) (auto split: sum.splits)

lemma collect_ok: "list_all (\<lambda>kv. is_ok (snd kv)) xs \<Longrightarrow> is_ok (collect xs)"
  by (induction xs rule: collect.induct) (auto split: sum.splits)

lemma mapped_entries_keys: "map fst (mapped_entries e attrs cats) = output_keys"
  by (cases cats) (simp add: mapped_entries_def output_keys_def Let_def)

lemma map_product_keys:
  "map_product e product = Inr mapped \<Longrightarrow> keys_of mapped = output_keys"
  by (cases product)
     (auto simp add: map_product_def and_then_def mapped_entries_keys
        split: sum.splits dest: collect_keys)

lemma is_dict_get: "is_dict v \<Longrightarrow> is_ok (py_get v k d)"
  by (cases v) simp_all

lemma find_parameter_ok: "list_all is_dict ps \<Longrightarrow> is_ok (find_parameter ps t d)"
  by (induction ps) (auto simp add: is_dict_get split: sum.splits elim: is_dict.elims)

lemma get_parameter_value_ok:
  "absent_or dict_list (map_of attrs ''Parameters'')
   \<Longrightarrow> is_ok (get_parameter_value (product_get attrs ''Parameters'' (JList [])) t d)"
  by (auto simp add: absent_or_def product_get_def get_parameter_value_def and_then_def
      find_parameter_ok split: option.splits elim!: dict_list.elims)

lemma price_tier_strings_ok: "list_all is_dict ts \<Longrightarrow> is_ok (price_tier_strings e ts)"
  by (induction ts) (auto split: sum.splits elim: is_dict.elims)

lemma standard_pricing_wf:
  assumes "well_formed_variations v"
  shows "\<exists>sp. standard_pricing v = Inr sp
            \<and> (\<forall>p. sp = Some p \<longrightarrow> (\<exists>t ts. p = JList (t # ts) \<and> is_dict t \<and> list_all is_dict ts))"
proof (cases v rule: well_formed_variations.cases)
  case 1
  then show ?thesis by (simp add: standard_pricing_def)
next
  case (2 v0 vs)
  with assms obtain kvs where v0: "v0 = JObj kvs"
    and sp: "absent_or dict_list (map_of kvs ''StandardPricing'')"
    by (cases v0) (simp_all add: well_formed_variation_def)
  show ?thesis
  proof (cases "map_of kvs ''StandardPricing''")
    case None
    then show ?thesis using 2 v0 by (simp add: standard_pricing_def and_then_def)
  next
    case (Some x)
    with sp obtain tiers where x: "x = JList tiers" and d: "list_all is_dict tiers"
      by (cases x) (simp_all add: absent_or_def)
    show ?thesis
      using 2 v0 Some x d
      by (cases tiers) (simp_all add: standard_pricing_def and_then_def)
  qed
qed (use assms in simp_all)

lemma get_base_price_wf: "well_formed_variations v \<Longrightarrow> is_ok (get_base_price v)"
  using standard_pricing_wf [of v]
  by (auto simp add: get_base_price_def and_then_def is_dict_get split: option.splits)

lemma format_bulk_prices_wf: "well_formed_variations v \<Longrightarrow> is_ok (format_bulk_prices e v)"
proof -
  assume "well_formed_variations v"
  from standard_pricing_wf [OF this] obtain sp where sp: "standard_pricing v = Inr sp"
    and p: "\<forall>p. sp = Some p \<longrightarrow> (\<exists>t ts. p = JList (t # ts) \<and> is_dict t \<and> list_all is_dict ts)"
    by blast
  show ?thesis
  proof (cases sp)
    case None
    then show ?thesis using sp by (simp add: format_bulk_prices_def and_then_def)
  next
    case (Some pricing)
    with p obtain t ts where l: "pricing = JList (t # ts)" and d: "list_all is_dict (t # ts)"
      by auto
    from price_tier_strings_ok [OF d, of e]
    obtain ss where "price_tier_strings e (t # ts) = Inr ss"
      by (auto simp only: is_ok_iff)
    then show ?thesis
      using sp Some l by (simp only: format_bulk_prices_def and_then_def) simp
  qed
qed

lemma first_variation_wf:
  assumes "well_formed_variations v" and "truthy v"
  shows "\<exists>kvs. py_index v 0 = Inr (JObj kvs) \<and> absent_or is_dict (map_of kvs ''PackageType'')"
  using assms
  by (cases v rule: well_formed_variations.cases)
     (auto simp add: well_formed_variation_def elim: is_dict.elims)

lemma standard_package_wf:
  "well_formed_variations v
   \<Longrightarrow> is_ok (if truthy v
              then and_then (py_index v 0) (\<lambda>x. py_get x ''StandardPackage'' (JStr []))
              else Inr (JStr []))"
  using first_variation_wf [of v] by (auto simp add: and_then_def)

lemma packaging_type_wf:
  "well_formed_variations v
   \<Longrightarrow> is_ok (if truthy v
              then and_then (py_index v 0) (\<lambda>x.
                   and_then (py_get x ''PackageType'' (JObj [])) (\<lambda>t. py_get t ''Name'' (JStr [])))
              else Inr (JStr []))"
  using first_variation_wf [of v]
  by (auto simp add: and_then_def absent_or_def is_dict_get split: option.splits)

lemma variations_default:
  "absent_or well_formed_variations (map_of attrs ''ProductVariations'')
   \<Longrightarrow> well_formed_variations (product_get attrs ''ProductVariations'' (JList []))"
  by (simp add: absent_or_def product_get_def split: option.splits)

lemma child_name_ok:
  "list_all is_dict cs \<Longrightarrow> i < length cs \<Longrightarrow> is_ok (child_name (JList cs) i)"
  by (simp add: child_name_def and_then_def is_dict_get list_all_length)

lemma get_category_hierarchy_wf:
  assumes "absent_or well_formed_category (map_of attrs ''Category'')"
  shows "is_ok (get_category_hierarchy (product_get attrs ''Category'' (JObj [])))"
proof (cases "map_of attrs ''Category''")
  case None
  then show ?thesis by (simp add: product_get_def get_category_hierarchy_def)
next
  case (Some c)
  with assms obtain kvs where c: "c = JObj kvs"
    and cc: "absent_or dict_list (map_of kvs ''ChildCategories'')"
    by (cases c) (simp_all add: absent_or_def well_formed_category_def)
  show ?thesis
  proof (cases "map_of kvs ''ChildCategories''")
    case None
    then show ?thesis
      using Some c by (simp add: product_get_def get_category_hierarchy_def and_then_def)
  next
    case inner: (Some x)
    with cc obtain cs where x: "x = JList cs" and d: "list_all is_dict cs"
      by (cases x) (simp_all add: absent_or_def)
    have n: "\<And>i. i < length cs \<Longrightarrow> \<exists>v. child_name (JList cs) i = Inr v"
      using child_name_ok [OF d] by (simp add: is_ok_iff)
    show ?thesis
    proof (cases "kvs = [] \<or> cs = []")
      case True
      then show ?thesis
        using Some c inner x
        by (auto simp add: product_get_def get_category_hierarchy_def and_then_def)
    next
      case False
      then have l: "0 < length cs" by simp
      from n [OF l] obtain v0 where v0: "child_name (JList cs) 0 = Inr v0" by blast
      have s1: "is_ok (if int (length cs) > 1 then child_name (JList cs) 1 else Inr (JStr []))"
        using n [of 1] by auto
      have s2: "is_ok (if int (length cs) > 2 then child_name (JList cs) 2 else Inr (JStr []))"
        using n [of 2] by auto
      have s3: "is_ok (if int (length cs) > 3 then child_name (JList cs) 3 else Inr (JStr []))"
        using n [of 3] by auto
      from s1 s2 s3 obtain a b c' where
        "(if int (length cs) > 1 then child_name (JList cs) 1 else Inr (JStr [])) = Inr a"
        "(if int (length cs) > 2 then child_name (JList cs) 2 else Inr (JStr [])) = Inr b"
        "(if int (length cs) > 3 then child_name (JList cs) 3 else Inr (JStr [])) = Inr c'"
        by (auto simp only: is_ok_iff)
      then show ?thesis
        using Some c inner x False v0
        by (simp only: product_get_def get_category_hierarchy_def and_then_def) simp
    qed
  qed
qed

lemma format_datasheets_wf:
  "absent_or is_str (map_of attrs ''DatasheetUrl'')
   \<Longrightarrow> is_ok (format_datasheets (product_get attrs ''DatasheetUrl'' JNull))"
  by (auto simp add: absent_or_def product_get_def split: option.splits elim: is_str.elims)

lemma str_items_ok: "list_all is_str xs \<Longrightarrow> is_ok (str_items xs)"
proof (induction xs)
  case Nil
  show ?case by simp
next
  case (Cons a xs)
  then obtain s where "a = JStr s" by (cases a) simp_all
  moreover from Cons obtain ss where "str_items xs = Inr ss" by (auto simp add: is_ok_iff)
  ultimately show ?case by simp
qed

lemma format_other_names_wf:
  "absent_or str_list (map_of attrs ''OtherNames'')
   \<Longrightarrow> is_ok (format_other_names (product_get attrs ''OtherNames'' JNull))"
proof (cases "map_of attrs ''OtherNames''")
  case None
  then show ?thesis by (simp add: product_get_def)
next
  case (Some x)
  assume "absent_or str_list (map_of attrs ''OtherNames'')"
  with Some obtain xs where x: "x = JList xs" and d: "list_all is_str xs"
    by (cases x) (simp_all add: absent_or_def)
  from str_items_ok [OF d] obtain ss where "str_items xs = Inr ss"
    by (auto simp only: is_ok_iff)
  then show ?thesis using Some x by (simp add: product_get_def and_then_def)
qed

lemma mapped_entries_ok:
  assumes "absent_or dict_list (map_of attrs ''Parameters'')"
    and "absent_or well_formed_variations (map_of attrs ''ProductVariations'')"
    and "absent_or is_str (map_of attrs ''DatasheetUrl'')"
    and "absent_or str_list (map_of attrs ''OtherNames'')"
  shows "list_all (\<lambda>kv. is_ok (snd kv)) (mapped_entries e attrs cats)"
proof -
  note v = variations_default [OF assms(2)]
  show ?thesis
    by (cases cats)
       (simp add: mapped_entries_def Let_def get_parameter_value_ok [OF assms(1)]
          get_base_price_wf [OF v] format_bulk_prices_wf [OF v] standard_package_wf [OF v]
          packaging_type_wf [OF v] format_datasheets_wf [OF assms(3)]
          format_other_names_wf [OF assms(4)])
qed

lemma map_product_wf:
  assumes "well_formed_product product"
  shows "\<exists>mapped. map_product e product = Inr mapped \<and> keys_of mapped = output_keys"
proof -
  from assms obtain attrs where p: "product = JObj attrs"
    by (cases product) (simp_all add: well_formed_product_def)
  from assms p have a: "absent_or dict_list (map_of attrs ''Parameters'')"
    and b: "absent_or well_formed_variations (map_of attrs ''ProductVariations'')"
    and c: "absent_or well_formed_category (map_of attrs ''Category'')"
    and d: "absent_or is_str (map_of attrs ''DatasheetUrl'')"
    and f: "absent_or str_list (map_of attrs ''OtherNames'')"
    by (simp_all add: well_formed_product_def)
  from get_category_hierarchy_wf [OF c]
  obtain cats where h: "get_category_hierarchy (product_get attrs ''Category'' (JObj [])) = Inr cats"
    by (auto simp only: is_ok_iff)
  from collect_ok [OF mapped_entries_ok [OF a b d f, of e cats]]
  obtain kvs where k: "collect (mapped_entries e attrs cats) = Inr kvs"
    by (auto simp only: is_ok_iff)
  have m: "map_product e product = Inr (JObj kvs)"
    using p h k by (simp add: map_product_def and_then_def)
  from map_product_keys [OF m] m show ?thesis by blast
qed

lemma demo_product_wf: "well_formed_product demo_detail_product"
  by (simp add: demo_detail_product_def well_formed_product_def absent_or_def
      well_formed_variation_def well_formed_category_def)


text \<open>
  C10. On an input that is empty, or is a dict without the key \<^verbatim>\<open>Product\<close>,
  \<^verbatim>\<open>map_product_details_to_structure\<close> returns the empty dict and does not raise.
  On a dict with the key \<^verbatim>\<open>Product\<close>, the record it returns has exactly the fixed
  keys, in the order of the source; and it does return one whenever the product is well
  formed.
\<close>

theorem mapper_result:
  "(\<not> truthy api_response \<or> (is_dict api_response \<and> field api_response ''Product'' = None)
      \<longrightarrow> map_product_details_to_structure e api_response = Inr (JObj []))
   \<and> (field api_response ''Product'' = Some product
      \<longrightarrow> (\<forall>mapped. map_product_details_to_structure e api_response = Inr mapped
                    \<longrightarrow> keys_of mapped = output_keys)
        \<and> (well_formed_product product
             \<longrightarrow> (\<exists>mapped. map_product_details_to_structure e api_response = Inr mapped
                          \<and> keys_of mapped = output_keys)))"
proof (intro conjI impI allI)
  assume "\<not> truthy api_response \<or> (is_dict api_response \<and> field api_response ''Product'' = None)"
  then show "map_product_details_to_structure e api_response = Inr (JObj [])"
    by (cases api_response) auto
next
  fix mapped
  assume "field api_response ''Product'' = Some product"
    and "map_product_details_to_structure e api_response = Inr mapped"
  then show "keys_of mapped = output_keys"
    by (cases api_response) (auto dest: map_product_keys)
next
  assume "field api_response ''Product'' = Some product" and "well_formed_product product"
  then show "\<exists>mapped. map_product_details_to_structure e api_response = Inr mapped
                    \<and> keys_of mapped = output_keys"
    using map_product_wf [of product e] by (cases api_response) auto
qed

theorem mapper_result_witness:
  "\<not> truthy (JObj [])
   \<and> map_product_details_to_structure demo_env (JObj []) = Inr (JObj [])
   \<and> is_dict (JObj [(''status'', JInt 404)])
   \<and> field (JObj [(''status'', JInt 404)]) ''Product'' = None
   \<and> map_product_details_to_structure demo_env (JObj [(''status'', JInt 404)]) = Inr (JObj [])
   \<and> field demo_details ''Product'' = Some demo_detail_product
   \<and> well_formed_product demo_detail_product
   \<and> (\<exists>mapped. map_product_details_to_structure demo_env demo_details = Inr mapped
               \<and> keys_of mapped = output_keys)"
proof -
  have a: "\<not> truthy (JObj [])" by simp
  have b: "is_dict (JObj [(''status'', JInt 404)])
           \<and> field (JObj [(''status'', JInt 404)]) ''Product'' = None" by simp
  have c: "field demo_details ''Product'' = Some demo_detail_product"
    by (simp add: demo_details_def)
  show ?thesis
    using a b c demo_product_wf
      mapper_result [where api_response = "JObj []" and e = demo_env]
      mapper_result [where api_response = "JObj [(''status'', JInt 404)]" and e = demo_env]
      mapper_result [where api_response = demo_details and product = demo_detail_product
                       and e = demo_env]
    by blast
qed

text \<open>
  Outside the well-formed products the mapper may raise, which its caller catches: on
  \<^verbatim>\<open>{"Product": null}\<close> the first \<^verbatim>\<open>product.get\<close> is an AttributeError.
\<close>

lemma mapper_raises_on_null_product:
  "map_product_details_to_structure e (JObj [(''Product'', JNull)]) = Inl AttributeError"
  by (simp add: map_product_def)

section \<open>Properties of the store\<close>

lemma files_print_all [simp]: "files (print_all xs w) = files w"
  by (induction xs arbitrary: w) (simp_all add: emit_def)

lemma trace_print_all [simp]: "trace (print_all xs w) = trace w @ map Print xs"
  by (induction xs arbitrary: w) (simp_all add: emit_def)

lemma clock_print_all [simp]: "clock (print_all xs w) = clock w + length xs"
  by (induction xs arbitrary: w) (simp_all add: emit_def)

lemma process_products_written:
  assumes "load_existing w (json_file_path e) = Inr xs"
    and "write_result_at e (clock w) (json_file_path e) = WriteOk"
  shows "files (snd (process_products e (JList ps) offset limit w)) (json_file_path e)
         = Some (Json (JList (xs @ [batch_data e (JList ps) offset limit (int (length ps)) w])))"
  using assms
  by (simp add: process_products_def store_batch_def json_dump_def)

lemma process_products_returns_None:
  "fst (process_products e (JList ps) offset limit w) = Inr JNull"
  by (simp add: process_products_def split: sum.splits prod.splits)

lemma demo_path: "json_file_path demo_env = ''/srv/dkey/api_responses.json''"
  by (simp add: json_file_path_def demo_env_def)

lemma requests_append [simp]: "requests (xs @ ys) = requests xs @ requests ys"
  by (induction xs rule: requests.induct) simp_all

lemma sleeps_append [simp]: "sleeps (xs @ ys) = sleeps xs @ sleeps ys"
  by (induction xs rule: sleeps.induct) simp_all

lemma refreshes_append [simp]: "refreshes (xs @ ys) = refreshes xs + refreshes ys"
  by (induction xs rule: refreshes.induct) simp_all

lemma requests_prints [simp]: "requests (map Print xs) = []"
  by (induction xs) simp_all

lemma paths_differ:
  "mapped_file_path e \<noteq> raw_file_path e"
  "json_file_path e \<noteq> token_file_path e"
  by (simp_all add: mapped_file_path_def raw_file_path_def json_file_path_def token_file_path_def)




lemma process_products_appends0:
  assumes "files w (json_file_path e) = Some (Json (JList L))"
    and "write_result_at e (clock w) (json_file_path e) = WriteOk"
  shows "fst (process_products e (JList ps) offset limit w) = Inr JNull
       \<and> files (snd (process_products e (JList ps) offset limit w)) (json_file_path e)
         = Some (Json (JList (L @ [batch_data e (JList ps) offset limit (int (length ps)) w])))"
  using assms
  by (simp add: process_products_def store_batch_def json_dump_def load_existing_def)

lemma process_products_write_fails:
  assumes "load_existing w (json_file_path e) = Inr xs"
    and "write_result_at e (clock w) (json_file_path e) \<noteq> WriteOk"
  shows "fst (process_products e (JList ps) offset limit w) = Inr JNull
       \<and> trace (snd (process_products e (JList ps) offset limit w)) = trace w @ map Print ps"
  using assms
  by (cases "write_result_at e (clock w) (json_file_path e)")
     (simp_all add: process_products_def store_batch_def json_dump_def)

lemma py_len_iter: "py_len v = Inr n \<Longrightarrow> \<exists>items. py_iter v = Inr items"
  by (cases v) simp_all

lemma store_batch_frame:
  "trace (snd (store_batch e b items w)) = trace w
   \<and> (\<forall>p. p \<noteq> json_file_path e \<longrightarrow> files (snd (store_batch e b items w)) p = files w p)"
  by (simp add: store_batch_def json_dump_def split: sum.splits write_result.splits)

lemma process_products_sized:
  assumes "py_len products = Inr n"
  shows "\<exists>w'. process_products e products offset limit w = (Inr JNull, w')
            \<and> requests (trace w') = requests (trace w)
            \<and> (\<forall>p. p \<noteq> json_file_path e \<longrightarrow> files w' p = files w p)"
proof -
  obtain items where it: "py_iter products = Inr items"
    using assms py_len_iter by blast
  let ?b = "batch_data e products offset limit n w"
  obtain r w1 where sb: "store_batch e ?b items w = (r, w1)"
    by (cases "store_batch e ?b items w")
  have fr: "trace w1 = trace w" "\<forall>p. p \<noteq> json_file_path e \<longrightarrow> files w1 p = files w p"
    using store_batch_frame [of e ?b items w] sb by simp_all
  show ?thesis
    using assms it sb fr
    by (cases r) (simp_all add: process_products_def)
qed

text \<open>
  C9. For every list of products, offset and limit, the batch that \<^verbatim>\<open>process_products\<close>
  builds and writes (the last element of the stored collection, when the file can be read
  and the write succeeds) has \<^verbatim>\<open>metadata.product_count\<close> equal to the length of its
  \<^verbatim>\<open>products\<close> list, which is the list it was given.
\<close>

theorem process_products_product_count:
  assumes "load_existing w (json_file_path e) = Inr xs"
    and "write_result_at e (clock w) (json_file_path e) = WriteOk"
  shows "\<exists>b m. files (snd (process_products e (JList ps) offset limit w)) (json_file_path e)
                 = Some (Json (JList (xs @ [b])))
             \<and> field b ''products'' = Some (JList ps)
             \<and> field b ''metadata'' = Some m
             \<and> field m ''product_count'' = Some (JInt (int (length ps)))
             \<and> field m ''offset'' = Some (JInt offset)
             \<and> field m ''limit'' = Some (JInt limit)"
proof -
  let ?b = "batch_data e (JList ps) offset limit (int (length ps)) w"
  have "files (snd (process_products e (JList ps) offset limit w)) (json_file_path e)
        = Some (Json (JList (xs @ [?b])))"
    using assms by (rule process_products_written)
  moreover have "field ?b ''products'' = Some (JList ps)"
    by (simp add: batch_data_def)
  moreover have "\<exists>m. field ?b ''metadata'' = Some m
                    \<and> field m ''product_count'' = Some (JInt (int (length ps)))
                    \<and> field m ''offset'' = Some (JInt offset)
                    \<and> field m ''limit'' = Some (JInt limit)"
    by (simp add: batch_data_def)
  ultimately show ?thesis by blast
qed

theorem process_products_product_count_witness:
  "load_existing empty_world (json_file_path demo_env) = Inr []
   \<and> write_result_at demo_env (clock empty_world) (json_file_path demo_env) = WriteOk
   \<and> (\<exists>b m. files (snd (process_products demo_env (JList [demo_product, demo_product]) 0 50 empty_world))
               (json_file_path demo_env) = Some (Json (JList ([] @ [b])))
             \<and> field b ''products'' = Some (JList [demo_product, demo_product])
             \<and> field b ''metadata'' = Some m
             \<and> field m ''product_count'' = Some (JInt (int (length [demo_product, demo_product])))
             \<and> field m ''offset'' = Some (JInt 0)
             \<and> field m ''limit'' = Some (JInt 50))"
proof -
  have a: "load_existing empty_world (json_file_path demo_env) = Inr []"
    by (simp add: load_existing_def empty_world_def)
  have b: "write_result_at demo_env (clock empty_world) (json_file_path demo_env) = WriteOk"
    by (simp add: demo_env_def)
  show ?thesis
    using a b process_products_product_count [OF a b, of "[demo_product, demo_product]" 0 50]
    by blast
qed



text \<open>
  C6. For every list of products and every store file that parses as a JSON list \<open>L\<close>,
  an append whose write succeeds leaves exactly \<open>L\<close> followed by the new batch: one more
  element, the earlier ones as they were and in their order. Appending the same products
  a second time gives \<open>L\<close> followed by two batches: nothing is deduplicated.
\<close>

theorem process_products_appends:
  assumes "files w (json_file_path e) = Some (Json (JList L))"
    and "\<And>k. write_result_at e k (json_file_path e) = WriteOk"
  shows "fst (process_products e (JList ps) offset limit w) = Inr JNull
       \<and> files (snd (process_products e (JList ps) offset limit w)) (json_file_path e)
         = Some (Json (JList (L @ [batch_data e (JList ps) offset limit (int (length ps)) w])))
       \<and> files (snd (process_products e (JList ps) offset limit
                       (snd (process_products e (JList ps) offset limit w)))) (json_file_path e)
         = Some (Json (JList (L @ [batch_data e (JList ps) offset limit (int (length ps)) w,
                                   batch_data e (JList ps) offset limit (int (length ps))
                                     (snd (process_products e (JList ps) offset limit w))])))"
proof -
  let ?w1 = "snd (process_products e (JList ps) offset limit w)"
  let ?b1 = "batch_data e (JList ps) offset limit (int (length ps)) w"
  have one: "fst (process_products e (JList ps) offset limit w) = Inr JNull
             \<and> files ?w1 (json_file_path e) = Some (Json (JList (L @ [?b1])))"
    using assms(1) assms(2) [of "clock w"] by (rule process_products_appends0)
  then have "files ?w1 (json_file_path e) = Some (Json (JList (L @ [?b1])))" by simp
  from process_products_appends0 [OF this assms(2) [of "clock ?w1"], of ps offset limit]
  have "files (snd (process_products e (JList ps) offset limit ?w1)) (json_file_path e)
        = Some (Json (JList ((L @ [?b1]) @ [batch_data e (JList ps) offset limit (int (length ps)) ?w1])))"
    by simp
  with one show ?thesis by simp
qed

theorem process_products_appends_witness:
  "files stored_world (json_file_path demo_env) = Some (Json (JList [JStr ''earlier batch'']))
   \<and> (\<forall>k. write_result_at demo_env k (json_file_path demo_env) = WriteOk)
   \<and> files (snd (process_products demo_env (JList [demo_product]) 0 50
                   (snd (process_products demo_env (JList [demo_product]) 0 50 stored_world))))
        (json_file_path demo_env)
      = Some (Json (JList ([JStr ''earlier batch'']
            @ [batch_data demo_env (JList [demo_product]) 0 50 (int (length [demo_product])) stored_world,
               batch_data demo_env (JList [demo_product]) 0 50 (int (length [demo_product]))
                 (snd (process_products demo_env (JList [demo_product]) 0 50 stored_world))])))"
proof -
  have a: "files stored_world (json_file_path demo_env) = Some (Json (JList [JStr ''earlier batch'']))"
    by (simp add: stored_world_def empty_world_def demo_path)
  have b: "\<And>k. write_result_at demo_env k (json_file_path demo_env) = WriteOk"
    by (simp add: demo_env_def)
  show ?thesis
    using a b process_products_appends [OF a b, of "[demo_product]" 0 50]
    by simp
qed





text \<open>
  C7 (as the code has it). When the write of the store file fails, \<^verbatim>\<open>process_products\<close>
  prints each product of the batch to standard output, in order, and no exception leaves
  it. It returns \<^verbatim>\<open>None\<close>, the value it returns on every other run too (any
  environment \<open>e'\<close>, any world \<open>w'\<close>): the failure is logged, not reported to the
  caller.
\<close>

theorem write_failure_falls_back:
  assumes "load_existing w (json_file_path e) = Inr xs"
    and "write_result_at e (clock w) (json_file_path e) \<noteq> WriteOk"
  shows "fst (process_products e (JList ps) offset limit w) = Inr JNull
       \<and> trace (snd (process_products e (JList ps) offset limit w)) = trace w @ map Print ps
       \<and> fst (process_products e (JList ps) offset limit w)
         = fst (process_products e' (JList ps) offset limit w')"
  using process_products_write_fails [OF assms, of ps offset limit]
    process_products_returns_None [of e' ps offset limit w']
  by simp

theorem write_failure_falls_back_witness:
  "load_existing empty_world (json_file_path readonly_env) = Inr []
   \<and> write_result_at readonly_env (clock empty_world) (json_file_path readonly_env) \<noteq> WriteOk
   \<and> fst (process_products readonly_env (JList [demo_product]) 0 50 empty_world) = Inr JNull
   \<and> trace (snd (process_products readonly_env (JList [demo_product]) 0 50 empty_world))
     = trace empty_world @ map Print [demo_product]
   \<and> fst (process_products readonly_env (JList [demo_product]) 0 50 empty_world)
     = fst (process_products demo_env (JList [demo_product]) 0 50 empty_world)"
proof -
  have a: "load_existing empty_world (json_file_path readonly_env) = Inr []"
    by (simp add: load_existing_def empty_world_def)
  have b: "write_result_at readonly_env (clock empty_world) (json_file_path readonly_env) \<noteq> WriteOk"
    by (simp add: readonly_env_def)
  show ?thesis
    using a b write_failure_falls_back [OF a b, of "[demo_product]" 0 50 demo_env empty_world]
    by blast
qed

text \<open>
  Against C7 as stated: with a store that cannot be opened for writing the file is not
  created, with a writable one it is, and the caller gets the same value from both calls.
\<close>

theorem write_failure_not_reported:
  "write_result_at readonly_env (clock empty_world) (json_file_path readonly_env) = OpenFails
   \<and> write_result_at demo_env (clock empty_world) (json_file_path demo_env) = WriteOk
   \<and> files (snd (process_products readonly_env (JList [demo_product]) 0 50 empty_world))
        (json_file_path readonly_env) = None
   \<and> files (snd (process_products demo_env (JList [demo_product]) 0 50 empty_world))
        (json_file_path demo_env) \<noteq> None
   \<and> fst (process_products readonly_env (JList [demo_product]) 0 50 empty_world)
     = fst (process_products demo_env (JList [demo_product]) 0 50 empty_world)"
  by (simp add: process_products_def store_batch_def json_dump_def load_existing_def
      readonly_env_def demo_env_def empty_world_def demo_product_def json_file_path_def emit_def)

section \<open>Properties of the retry loops\<close>






lemma sdk_get_access_token_cached:
  assumes "files w (token_file_path e) = Some (Json data)"
    and "py_subscript data ''access_token'' = Inr token"
  shows "sdk_get_access_token e w = (Inr token, w)"
  using assms by (simp add: sdk_get_access_token_def json_load_def)

lemma search_product_first_try:
  assumes "files w (token_file_path e) = Some (Json data)"
    and "py_subscript data ''access_token'' = Inr token"
    and "\<not> attempt_failed (http e (clock w) (KeywordSearch kw limit offset mid token))"
    and "0 < max_retries"
  shows "search_product e kw limit offset mid max_retries bf w
         = (Inr (response_body (http e (clock w) (KeywordSearch kw limit offset mid token))),
            emit (Http (KeywordSearch kw limit offset mid token)) w)"
  using assms
  by (simp add: search_product_def sdk_get_access_token_cached search_product_loop.simps)










text \<open>
  C4. When the first attempt of the detail lookup is answered with 404,
  \<^verbatim>\<open>get_product_details\<close> returns the empty dict at once: the request is the only
  event, with no sleep and no refresh.
\<close>

theorem not_found_short_circuit:
  assumes "api_get_access_token e w = Inr token"
    and "truthy token"
    and "0 < max_retries"
    and "status_code (http e (clock w) (ProductDetails product_number (query_params manufacturer_id) token))
         = Some 404"
  shows "get_product_details e product_number manufacturer_id max_retries backoff_factor w
         = (Inr (JObj []),
            emit (Http (ProductDetails product_number (query_params manufacturer_id) token)) w)
       \<and> sleeps (trace (snd (get_product_details e product_number manufacturer_id max_retries
                                backoff_factor w))) = sleeps (trace w)
       \<and> refreshes (trace (snd (get_product_details e product_number manufacturer_id max_retries
                                   backoff_factor w))) = refreshes (trace w)
       \<and> requests (trace (snd (get_product_details e product_number manufacturer_id max_retries
                                  backoff_factor w)))
         = requests (trace w) @ [ProductDetails product_number (query_params manufacturer_id) token]"
  using assms
  by (simp add: get_product_details_def product_details_loop.simps emit_def)

theorem not_found_short_circuit_witness:
  "api_get_access_token not_found_env token_world = Inr (JStr ''t0k3n'')
   \<and> truthy (JStr ''t0k3n'')
   \<and> (0::int) < 3
   \<and> status_code (http not_found_env (clock token_world)
                    (ProductDetails ''LM358'' (query_params (Some 19)) (JStr ''t0k3n''))) = Some 404
   \<and> get_product_details not_found_env ''LM358'' (Some 19) 3 2 token_world
      = (Inr (JObj []),
         emit (Http (ProductDetails ''LM358'' (query_params (Some 19)) (JStr ''t0k3n''))) token_world)
   \<and> sleeps (trace (snd (get_product_details not_found_env ''LM358'' (Some 19) 3 2 token_world)))
      = sleeps (trace token_world)
   \<and> refreshes (trace (snd (get_product_details not_found_env ''LM358'' (Some 19) 3 2 token_world)))
      = refreshes (trace token_world)"
proof -
  have a: "api_get_access_token not_found_env token_world = Inr (JStr ''t0k3n'')"
    by (simp add: api_get_access_token_def json_load_def token_file_path_def not_found_env_def
        demo_env_def token_world_def empty_world_def demo_token_def)
  have b: "truthy (JStr ''t0k3n'')" by simp
  have c: "(0::int) < 3" by simp
  have d: "status_code (http not_found_env (clock token_world)
                    (ProductDetails ''LM358'' (query_params (Some 19)) (JStr ''t0k3n''))) = Some 404"
    by (simp add: not_found_env_def)
  from not_found_short_circuit [OF a b c d, of 2]
  show ?thesis using a b c d by blast
qed

text \<open>
  C8 (as the code has it). With no token file, \<^verbatim>\<open>DgkeySdk.get_access_token\<close> calls
  \<^verbatim>\<open>token_update\<close> first, and a token it returns is the one read from the file the
  refresh left; \<^verbatim>\<open>ProductDetailsAPI.get_access_token\<close> returns \<^verbatim>\<open>None\<close> and
  refreshes nothing, and \<^verbatim>\<open>get_product_details\<close> then returns the empty dict without
  sending a request: the world is as it was.
\<close>

theorem access_token_when_absent:
  assumes "files w (token_file_path e) = None"
  shows "(\<exists>evs. trace (snd (sdk_get_access_token e w)) = trace w @ VendorKeywordSearch # evs)
       \<and> (\<forall>token. fst (sdk_get_access_token e w) = Inr token \<longrightarrow>
            (\<exists>fs data. keyword_search e (clock w) (files w) = Inr fs
                      \<and> fs (token_file_path e) = Some (Json data)
                      \<and> py_subscript data ''access_token'' = Inr token))
       \<and> api_get_access_token e w = Inr JNull
       \<and> get_product_details e product_number manufacturer_id max_retries backoff_factor w
         = (Inr (JObj []), w)"
proof (intro conjI allI impI)
  show "\<exists>evs. trace (snd (sdk_get_access_token e w)) = trace w @ VendorKeywordSearch # evs"
    using assms
    by (cases "keyword_search e (clock w) (files w)")
       (auto simp add: sdk_get_access_token_def token_update_def py_sleep_def max_sleep_def emit_def json_load_def
          split: option.splits file_content.splits sum.splits)
next
  fix token
  assume "fst (sdk_get_access_token e w) = Inr token"
  then show "\<exists>fs data. keyword_search e (clock w) (files w) = Inr fs
                      \<and> fs (token_file_path e) = Some (Json data)
                      \<and> py_subscript data ''access_token'' = Inr token"
    using assms
    by (cases "keyword_search e (clock w) (files w)")
       (auto simp add: sdk_get_access_token_def token_update_def py_sleep_def max_sleep_def emit_def json_load_def
          split: option.splits file_content.splits sum.splits)
next
  show "api_get_access_token e w = Inr JNull"
    using assms by (simp add: api_get_access_token_def)
next
  show "get_product_details e product_number manufacturer_id max_retries backoff_factor w
        = (Inr (JObj []), w)"
    using assms by (simp add: get_product_details_def api_get_access_token_def)
qed

theorem access_token_when_absent_witness:
  "files empty_world (token_file_path refreshing_env) = None
   \<and> fst (sdk_get_access_token refreshing_env empty_world) = Inr (JStr ''t0k3n'')
   \<and> (\<exists>evs. trace (snd (sdk_get_access_token refreshing_env empty_world))
             = trace empty_world @ VendorKeywordSearch # evs)
   \<and> api_get_access_token refreshing_env empty_world = Inr JNull
   \<and> get_product_details refreshing_env ''LM358'' (Some 19) 3 2 empty_world
     = (Inr (JObj []), empty_world)"
proof -
  have a: "files empty_world (token_file_path refreshing_env) = None"
    by (simp add: empty_world_def)
  have b: "fst (sdk_get_access_token refreshing_env empty_world) = Inr (JStr ''t0k3n'')"
    by (simp add: sdk_get_access_token_def token_update_def py_sleep_def max_sleep_def emit_def json_load_def
        token_file_path_def refreshing_env_def demo_env_def empty_world_def demo_token_def)
  from access_token_when_absent [OF a, of "''LM358''" "Some 19" 3 2]
  show ?thesis using a b by blast
qed

text \<open>
  Against C8 as stated: with no token file, and a vendor library that would store one, the
  detail client's \<^verbatim>\<open>get_access_token\<close> returns \<^verbatim>\<open>None\<close>, and
  \<^verbatim>\<open>get_product_details\<close> returns the empty dict and leaves the world as it was.
\<close>

theorem detail_token_not_refreshed:
  "files empty_world (token_file_path refreshing_env) = None
   \<and> api_get_access_token refreshing_env empty_world = Inr JNull
   \<and> get_product_details refreshing_env ''LM358'' None 3 2 empty_world = (Inr (JObj []), empty_world)"
  by (simp add: api_get_access_token_def get_product_details_def empty_world_def)

section \<open>Properties of the pagination\<close>

lemma page_reports_body:
  assumes "page_reports total_count r"
  shows "truthy (response_body r)"
    and "py_get (response_body r) ''ProductsCount'' (JInt 0) = Inr (JInt total_count)"
    and "\<exists>products n. py_get (response_body r) ''Products'' (JList []) = Inr products
                      \<and> py_len products = Inr n"
proof -
  from assms obtain kvs where b: "response_body r = JObj kvs"
    and c: "map_of kvs ''ProductsCount'' = Some (JInt total_count)"
    by (cases "response_body r") (simp_all add: page_reports_def)
  from c have "kvs \<noteq> []" by auto
  with b show "truthy (response_body r)" by simp
  from b c show "py_get (response_body r) ''ProductsCount'' (JInt 0) = Inr (JInt total_count)"
    by simp
  from assms b show "\<exists>products n. py_get (response_body r) ''Products'' (JList []) = Inr products
                      \<and> py_len products = Inr n"
    by (auto simp add: page_reports_def split: option.splits json.splits)
qed

lemma search_pages_count:
  assumes http: "\<And>k offset. page_reports total_count (http e k (KeywordSearch category limit offset mid token))"
    and limit: "0 < limit"
    and data: "py_subscript data ''access_token'' = Inr token"
  shows "files w (token_file_path e) = Some (Json data)
         \<Longrightarrow> total_count \<le> offset + int (Suc m) * limit
         \<Longrightarrow> m = 0 \<or> offset + int m * limit < total_count
         \<Longrightarrow> \<exists>w'. search_pages e category mid limit offset w = Some (Inr JNull, w')
                \<and> requests (trace w') = requests (trace w)
                     @ map (\<lambda>i. KeywordSearch category limit (offset + int i * limit) mid token) [0..<Suc m]
                \<and> files w' (token_file_path e) = Some (Json data)"
proof (induction m arbitrary: offset w)
  case 0
  let ?req = "KeywordSearch category limit offset mid token"
  let ?r = "http e (clock w) ?req"
  let ?w1 = "emit (Http ?req) w"
  have pr: "page_reports total_count ?r" by (rule http)
  then have nf: "\<not> attempt_failed ?r" by (simp add: page_reports_def)
  have sp: "search_product e category limit offset mid 10 2 w = (Inr (response_body ?r), ?w1)"
    using "0.prems"(1) data nf by (rule search_product_first_try) simp
  from page_reports_body(3) [OF pr] obtain products n
    where pg: "py_get (response_body ?r) ''Products'' (JList []) = Inr products"
      and pl: "py_len products = Inr n" by blast
  from process_products_sized [OF pl, of e offset limit ?w1] obtain w2
    where pp: "process_products e products offset limit ?w1 = (Inr JNull, w2)"
      and rq: "requests (trace w2) = requests (trace ?w1)"
      and fl: "\<forall>p. p \<noteq> json_file_path e \<longrightarrow> files w2 p = files ?w1 p" by blast
  have stop: "total_count \<le> offset + limit"
    using "0.prems"(2) by simp
  have "search_pages e category mid limit offset w = Some (Inr JNull, w2)"
    by (subst search_pages.simps)
       (simp add: sp page_reports_body(1,2) [OF pr] pg pl pp stop)
  moreover have "requests (trace w2) = requests (trace w) @ [?req]"
    using rq by (simp add: emit_def)
  moreover have "files w2 (token_file_path e) = Some (Json data)"
    using fl "0.prems"(1) paths_differ(2) [of e] by (simp add: emit_def)
  ultimately show ?case by simp
next
  case (Suc m)
  let ?req = "KeywordSearch category limit offset mid token"
  let ?r = "http e (clock w) ?req"
  let ?w1 = "emit (Http ?req) w"
  have pr: "page_reports total_count ?r" by (rule http)
  then have nf: "\<not> attempt_failed ?r" by (simp add: page_reports_def)
  have sp: "search_product e category limit offset mid 10 2 w = (Inr (response_body ?r), ?w1)"
    using Suc.prems(1) data nf by (rule search_product_first_try) simp
  from page_reports_body(3) [OF pr] obtain products n
    where pg: "py_get (response_body ?r) ''Products'' (JList []) = Inr products"
      and pl: "py_len products = Inr n" by blast
  from process_products_sized [OF pl, of e offset limit ?w1] obtain w2
    where pp: "process_products e products offset limit ?w1 = (Inr JNull, w2)"
      and rq: "requests (trace w2) = requests (trace ?w1)"
      and fl: "\<forall>p. p \<noteq> json_file_path e \<longrightarrow> files w2 p = files ?w1 p" by blast
  have tok2: "files w2 (token_file_path e) = Some (Json data)"
    using fl Suc.prems(1) paths_differ(2) [of e] by (simp add: emit_def)
  have "0 \<le> int m * limit" using limit by simp
  with Suc.prems(3) have more: "offset + limit < total_count"
    by (simp add: algebra_simps)
  then have go: "\<not> total_count \<le> offset + limit" by simp
  have step: "search_pages e category mid limit offset w
              = search_pages e category mid limit (offset + limit) w2"
    by (subst search_pages.simps)
       (simp add: sp page_reports_body(1,2) [OF pr] pg pl pp go)
  have b1: "total_count \<le> (offset + limit) + int (Suc m) * limit"
    using Suc.prems(2) by (simp add: algebra_simps)
  have b2: "m = 0 \<or> (offset + limit) + int m * limit < total_count"
    using Suc.prems(3) by (simp add: algebra_simps)
  from Suc.IH [OF tok2 b1 b2] obtain w'
    where r: "search_pages e category mid limit (offset + limit) w2 = Some (Inr JNull, w')"
      and t: "requests (trace w') = requests (trace w2)
                @ map (\<lambda>i. KeywordSearch category limit (offset + limit + int i * limit) mid token) [0..<Suc m]"
      and f: "files w' (token_file_path e) = Some (Json data)" by blast
  have sh: "map (\<lambda>i. KeywordSearch category limit (offset + int i * limit) mid token) [0..<Suc (Suc m)]
            = ?req # map (\<lambda>i. KeywordSearch category limit (offset + limit + int i * limit) mid token) [0..<Suc m]"
  proof -
    have a: "[0..<Suc (Suc m)] = 0 # [Suc 0..<Suc (Suc m)]"
      by (rule upt_conv_Cons) simp
    have b: "[Suc 0..<Suc (Suc m)] = map Suc [0..<Suc m]"
      by (rule map_Suc_upt [symmetric])
    show ?thesis
      by (simp only: a b list.map map_map comp_def) (simp add: algebra_simps del: upt_Suc)
  qed
  have "requests (trace w') = requests (trace w)
          @ map (\<lambda>i. KeywordSearch category limit (offset + int i * limit) mid token) [0..<Suc (Suc m)]"
    using t rq by (simp only: sh) (simp add: emit_def)
  with r f step show ?case by simp
qed

lemma page_count_bounds:
  assumes "0 \<le> total_count" and "0 < limit"
  shows "total_count \<le> int (Suc (page_count total_count limit - 1)) * limit"
    and "page_count total_count limit - 1 = 0
         \<or> int (page_count total_count limit - 1) * limit < total_count"
proof -
  define q where "q = (total_count + limit - 1) div limit"
  define r where "r = (total_count + limit - 1) mod limit"
  have eq: "total_count + limit - 1 = q * limit + r"
    by (simp add: q_def r_def)
  have r0: "0 \<le> r" and r1: "r < limit"
    using assms(2) by (simp_all add: r_def)
  have q0: "0 \<le> q"
    using assms by (simp add: q_def pos_imp_zdiv_nonneg_iff)
  have pc: "page_count total_count limit = max 1 (nat q)"
    by (simp add: page_count_def q_def)
  show "total_count \<le> int (Suc (page_count total_count limit - 1)) * limit"
  proof (cases "q \<le> 1")
    case True
    then have "q = 0 \<or> q = 1" using q0 by linarith
    then have "total_count \<le> limit" using eq r0 r1 assms by auto
    moreover have "page_count total_count limit = 1" using True pc by simp
    ultimately show ?thesis by simp
  next
    case False
    then have "int (Suc (page_count total_count limit - 1)) = q" using pc by simp
    moreover have "total_count \<le> q * limit" using eq r1 by linarith
    ultimately show ?thesis by simp
  qed
  show "page_count total_count limit - 1 = 0
         \<or> int (page_count total_count limit - 1) * limit < total_count"
  proof (cases "q \<le> 1")
    case True
    then have "page_count total_count limit = 1" using pc by simp
    then show ?thesis by simp
  next
    case False
    then have "int (page_count total_count limit - 1) = q - 1" using pc by simp
    moreover have "(q - 1) * limit < total_count"
      using eq r0 by (simp add: left_diff_distrib)
    ultimately show ?thesis by simp
  qed
qed

lemma search_pages_from_zero:
  assumes "\<And>k offset. page_reports total_count (http e k (KeywordSearch keyword limit offset mid token))"
    and "0 \<le> total_count" and "0 < limit"
    and "files w (token_file_path e) = Some (Json data)"
    and "py_subscript data ''access_token'' = Inr token"
  shows "\<exists>w'. search_pages e keyword mid limit 0 w = Some (Inr JNull, w')
           \<and> requests (trace w') = requests (trace w)
                @ map (\<lambda>i. KeywordSearch keyword limit (int i * limit) mid token)
                    [0..<page_count total_count limit]"
proof -
  let ?m = "page_count total_count limit - 1"
  have n: "Suc ?m = page_count total_count limit" by (simp add: page_count_def)
  have b1: "total_count \<le> 0 + int (Suc ?m) * limit"
    using page_count_bounds(1) [OF assms(2,3)] by simp
  have b2: "?m = 0 \<or> 0 + int ?m * limit < total_count"
    using page_count_bounds(2) [OF assms(2,3)] by simp
  from search_pages_count [OF assms(1) assms(3) assms(5) assms(4) b1 b2]
  obtain w' where "search_pages e keyword mid limit 0 w = Some (Inr JNull, w')"
    and "requests (trace w') = requests (trace w)
           @ map (\<lambda>i. KeywordSearch keyword limit (0 + int i * limit) mid token) [0..<Suc ?m]"
    by blast
  then show ?thesis by (simp only: n add_0) blast
qed

lemma search_pages_single_page:
  assumes "page_reports total_count (http e (clock w) (KeywordSearch keyword limit offset mid token))"
    and "total_count \<le> offset + limit"
    and "files w (token_file_path e) = Some (Json data)"
    and "py_subscript data ''access_token'' = Inr token"
  shows "search_pages e keyword mid limit offset w
         = Some (process_products e
                   (products_of (response_body (http e (clock w) (KeywordSearch keyword limit offset mid token))))
                   offset limit (emit (Http (KeywordSearch keyword limit offset mid token)) w))"
proof -
  let ?req = "KeywordSearch keyword limit offset mid token"
  let ?r = "http e (clock w) ?req"
  let ?w1 = "emit (Http ?req) w"
  have nf: "\<not> attempt_failed ?r" using assms(1) by (simp add: page_reports_def)
  have sp: "search_product e keyword limit offset mid 10 2 w = (Inr (response_body ?r), ?w1)"
    using assms(3,4) nf by (rule search_product_first_try) simp
  from page_reports_body(3) [OF assms(1)] obtain products n
    where pg: "py_get (response_body ?r) ''Products'' (JList []) = Inr products"
      and pl: "py_len products = Inr n" by blast
  have po: "products_of (response_body ?r) = products"
    using pg by (cases "response_body ?r") (simp_all add: products_of_def split: option.splits)
  from process_products_sized [OF pl, of e offset limit ?w1] obtain w2
    where pp: "process_products e products offset limit ?w1 = (Inr JNull, w2)" by blast
  show ?thesis
    by (subst search_pages.simps)
       (simp add: sp page_reports_body(1,2) [OF assms(1)] pg pl pp po assms(2))
qed

lemma shop_env_simps:
  "base_dir (shop_env t ps) = ''/srv/dkey''"
  "http (shop_env t ps) k r = Response 200 (JObj [(''ProductsCount'', JInt t), (''Products'', JList ps)])"
  "write_result_at (shop_env t ps) k p = WriteOk"
  by (simp_all add: shop_env_def demo_env_def)

lemma shop_env_reports: "page_reports t (http (shop_env t ps) k r)"
  by (simp add: shop_env_simps page_reports_def)

lemma token_world_cached:
  "base_dir e = ''/srv/dkey'' \<Longrightarrow> files token_world (token_file_path e) = Some (Json demo_token)"
  by (simp add: token_world_def empty_world_def token_file_path_def)

lemma demo_token_value: "py_subscript demo_token ''access_token'' = Inr (JStr ''t0k3n'')"
  by (simp add: demo_token_def)

text \<open>
  C1 (as the code has it). For every keyword, every \<open>total_count \<ge> 0\<close> and every page
  size \<open>limit > 0\<close>, when every page fetch succeeds at its first attempt and reports
  that total, the pagination loop started at offset 0 ends without an error after exactly
  \<open>max 1 (ceil (total_count / limit))\<close> requests, with the offsets
  \<open>0, limit, 2 * limit, ...\<close> in that order. \<^verbatim>\<open>search_products\<close> runs this loop
  with the page size 50. The first page is always requested: the total is known from its
  response only.
\<close>

theorem search_products_page_requests:
  assumes "\<And>k offset. page_reports total_count (http e k (KeywordSearch keyword limit offset mid token))"
    and "0 \<le> total_count" and "0 < limit"
    and "files w (token_file_path e) = Some (Json data)"
    and "py_subscript data ''access_token'' = Inr token"
  shows "\<exists>w'. search_pages e keyword mid limit 0 w = Some (Inr JNull, w')
           \<and> requests (trace w') = requests (trace w)
                @ map (\<lambda>i. KeywordSearch keyword limit (int i * limit) mid token)
                    [0..<page_count total_count limit]
           \<and> (limit = 50 \<longrightarrow> search_products e [keyword] mid w = Some (Inr JNull, w'))"
proof -
  from search_pages_from_zero [OF assms]
  obtain w' where a: "search_pages e keyword mid limit 0 w = Some (Inr JNull, w')"
    and b: "requests (trace w') = requests (trace w)
                @ map (\<lambda>i. KeywordSearch keyword limit (int i * limit) mid token)
                    [0..<page_count total_count limit]"
    by blast
  have c: "limit = 50 \<longrightarrow> search_products e [keyword] mid w = Some (Inr JNull, w')"
    using a by auto
  show ?thesis
    by (rule exI [of _ w'], intro conjI) (rule a b c)+
qed

theorem search_products_page_requests_witness:
  "(\<forall>k offset. page_reports 120 (http (shop_env 120 [demo_product]) k
        (KeywordSearch ''Amplifiers'' 50 offset 2946 (JStr ''t0k3n''))))
   \<and> (0::int) \<le> 120 \<and> (0::int) < 50
   \<and> files token_world (token_file_path (shop_env 120 [demo_product])) = Some (Json demo_token)
   \<and> py_subscript demo_token ''access_token'' = Inr (JStr ''t0k3n'')
   \<and> page_count 120 50 = 3
   \<and> (\<exists>w'. search_products (shop_env 120 [demo_product]) [''Amplifiers''] 2946 token_world
             = Some (Inr JNull, w')
          \<and> requests (trace w') = requests (trace token_world)
               @ map (\<lambda>i. KeywordSearch ''Amplifiers'' 50 (int i * 50) 2946 (JStr ''t0k3n''))
                   [0..<page_count 120 50])"
proof -
  have a: "\<And>k offset. page_reports 120 (http (shop_env 120 [demo_product]) k
        (KeywordSearch ''Amplifiers'' 50 offset 2946 (JStr ''t0k3n'')))"
    by (rule shop_env_reports)
  have b: "(0::int) \<le> 120" by simp
  have c: "(0::int) < 50" by simp
  have d: "files token_world (token_file_path (shop_env 120 [demo_product])) = Some (Json demo_token)"
    by (rule token_world_cached) (simp add: shop_env_simps)
  have f: "page_count 120 50 = 3" by (simp add: page_count_def)
  from search_products_page_requests [OF a b c d demo_token_value]
  have "\<exists>w'. search_products (shop_env 120 [demo_product]) [''Amplifiers''] 2946 token_world
             = Some (Inr JNull, w')
          \<and> requests (trace w') = requests (trace token_world)
               @ map (\<lambda>i. KeywordSearch ''Amplifiers'' 50 (int i * 50) 2946 (JStr ''t0k3n''))
                   [0..<page_count 120 50]"
    by blast
  with a b c d f demo_token_value show ?thesis by blast
qed

text \<open>
  Against C1 as stated: with a total of 0 the claim counts \<open>ceil (0 / 50) = 0\<close> requests,
  and the run sends one, for offset 0.
\<close>

theorem zero_total_one_request:
  "(\<forall>k r. page_reports 0 (http (shop_env 0 []) k r))
   \<and> result_of (search_products (shop_env 0 []) [''Amplifiers''] 2946 token_world) = Some (Inr JNull)
   \<and> requests (trace_after (search_products (shop_env 0 []) [''Amplifiers''] 2946 token_world))
     = [KeywordSearch ''Amplifiers'' 50 0 2946 (JStr ''t0k3n'')]
   \<and> nat ((0 + 50 - 1) div 50) = 0"
proof -
  have d: "files token_world (token_file_path (shop_env 0 [])) = Some (Json demo_token)"
    by (rule token_world_cached) (simp add: shop_env_simps)
  have r: "\<And>k offset. page_reports 0 (http (shop_env 0 []) k
        (KeywordSearch ''Amplifiers'' 50 offset 2946 (JStr ''t0k3n'')))"
    by (rule shop_env_reports)
  have z: "(0::int) \<le> 0" "(0::int) < 50" by simp_all
  from search_pages_from_zero [OF r z d demo_token_value]
  obtain w' where a: "search_pages (shop_env 0 []) ''Amplifiers'' 2946 50 0 token_world = Some (Inr JNull, w')"
    and b: "requests (trace w') = requests (trace token_world)
                @ map (\<lambda>i. KeywordSearch ''Amplifiers'' 50 (int i * 50) 2946 (JStr ''t0k3n''))
                    [0..<page_count 0 50]"
    by auto
  have "page_count 0 50 = 1" by (simp add: page_count_def)
  with a b show ?thesis
    by (simp add: result_of_def trace_after_def token_world_def empty_world_def shop_env_reports)
qed

text \<open>
  C2 (as the code has it). For every keyword, if the first page fetch succeeds and reports
  a total of 0, \<^verbatim>\<open>search_products\<close> sends that one request, hands the products of
  the page (a list, the empty one when the key is absent) to \<^verbatim>\<open>process_products\<close>
  once, at offset 0, and ends without an error. The store gets one batch: when the file
  can be read and written, it holds one more element afterwards.
\<close>

theorem zero_total_one_batch:
  assumes "page_reports 0 (http e (clock w) (KeywordSearch keyword 50 0 mid token))"
    and "files w (token_file_path e) = Some (Json data)"
    and "py_subscript data ''access_token'' = Inr token"
  shows "search_products e [keyword] mid w
         = Some (process_products e
                   (products_of (response_body (http e (clock w) (KeywordSearch keyword 50 0 mid token))))
                   0 50 (emit (Http (KeywordSearch keyword 50 0 mid token)) w))
       \<and> result_of (search_products e [keyword] mid w) = Some (Inr JNull)
       \<and> requests (trace_after (search_products e [keyword] mid w))
         = requests (trace w) @ [KeywordSearch keyword 50 0 mid token]
       \<and> (\<exists>ps. products_of (response_body (http e (clock w) (KeywordSearch keyword 50 0 mid token)))
                 = JList ps
              \<and> (load_existing w (json_file_path e) = Inr xs
                  \<and> write_result_at e (Suc (clock w)) (json_file_path e) = WriteOk
                  \<longrightarrow> file_after (search_products e [keyword] mid w) (json_file_path e)
                      = Some (Json (JList (xs @ [batch_data e (JList ps) 0 50 (int (length ps))
                                 (emit (Http (KeywordSearch keyword 50 0 mid token)) w)])))))"
proof -
  let ?req = "KeywordSearch keyword 50 0 mid token"
  let ?body = "response_body (http e (clock w) ?req)"
  let ?w1 = "emit (Http ?req) w"
  have sp: "search_pages e keyword mid 50 0 w = Some (process_products e (products_of ?body) 0 50 ?w1)"
    using assms(1) _ assms(2,3) by (rule search_pages_single_page) simp
  obtain ps where ps: "products_of ?body = JList ps"
    using assms(1)
    by (cases "field ?body ''Products''")
       (auto simp add: page_reports_def products_of_def split: json.splits)
  obtain w2 where pp: "process_products e (JList ps) 0 50 ?w1 = (Inr JNull, w2)"
    and rq: "requests (trace w2) = requests (trace ?w1)"
    using process_products_sized [of "JList ps" "int (length ps)" e 0 50 ?w1] by auto
  have run: "search_products e [keyword] mid w = Some (Inr JNull, w2)"
    using sp ps pp by simp
  have c1: "search_products e [keyword] mid w = Some (process_products e (products_of ?body) 0 50 ?w1)"
    using run ps pp by simp
  have c2: "result_of (search_products e [keyword] mid w) = Some (Inr JNull)"
    using run by (simp add: result_of_def)
  have c3: "requests (trace_after (search_products e [keyword] mid w)) = requests (trace w) @ [?req]"
    using run rq by (simp add: trace_after_def emit_def)
  have c4: "load_existing w (json_file_path e) = Inr xs
            \<and> write_result_at e (Suc (clock w)) (json_file_path e) = WriteOk
            \<longrightarrow> file_after (search_products e [keyword] mid w) (json_file_path e)
                = Some (Json (JList (xs @ [batch_data e (JList ps) 0 50 (int (length ps)) ?w1])))"
  proof
    assume h: "load_existing w (json_file_path e) = Inr xs
               \<and> write_result_at e (Suc (clock w)) (json_file_path e) = WriteOk"
    have l: "load_existing ?w1 (json_file_path e) = Inr xs"
      using h by (simp add: load_existing_def emit_def)
    have wr: "write_result_at e (clock ?w1) (json_file_path e) = WriteOk"
      using h by (simp add: emit_def)
    from process_products_written [OF l wr, of ps 0 50]
    show "file_after (search_products e [keyword] mid w) (json_file_path e)
          = Some (Json (JList (xs @ [batch_data e (JList ps) 0 50 (int (length ps)) ?w1])))"
      using run pp by (simp add: file_after_def)
  qed
  show ?thesis
    using c1 c2 c3 ps c4 by blast
qed

theorem zero_total_one_batch_witness:
  "page_reports 0 (http (shop_env 0 []) (clock token_world)
      (KeywordSearch ''Amplifiers'' 50 0 2946 (JStr ''t0k3n'')))
   \<and> files token_world (token_file_path (shop_env 0 [])) = Some (Json demo_token)
   \<and> py_subscript demo_token ''access_token'' = Inr (JStr ''t0k3n'')
   \<and> search_products (shop_env 0 []) [''Amplifiers''] 2946 token_world
      = Some (process_products (shop_env 0 [])
                (products_of (response_body (http (shop_env 0 []) (clock token_world)
                   (KeywordSearch ''Amplifiers'' 50 0 2946 (JStr ''t0k3n'')))))
                0 50 (emit (Http (KeywordSearch ''Amplifiers'' 50 0 2946 (JStr ''t0k3n''))) token_world))
   \<and> result_of (search_products (shop_env 0 []) [''Amplifiers''] 2946 token_world) = Some (Inr JNull)
   \<and> requests (trace_after (search_products (shop_env 0 []) [''Amplifiers''] 2946 token_world))
      = requests (trace token_world) @ [KeywordSearch ''Amplifiers'' 50 0 2946 (JStr ''t0k3n'')]"
proof -
  have a: "page_reports 0 (http (shop_env 0 []) (clock token_world)
      (KeywordSearch ''Amplifiers'' 50 0 2946 (JStr ''t0k3n'')))"
    by (rule shop_env_reports)
  have d: "files token_world (token_file_path (shop_env 0 [])) = Some (Json demo_token)"
    by (rule token_world_cached) (simp add: shop_env_simps)
  from zero_total_one_batch [OF a d demo_token_value]
  show ?thesis using a d demo_token_value by blast
qed

text \<open>
  Against C2 as stated: with a total of 0 and an empty page the store file, absent before,
  holds one batch afterwards, with an empty list of products.
\<close>

theorem zero_total_batch_stored:
  "page_reports 0 (http (shop_env 0 []) (clock token_world)
      (KeywordSearch ''Amplifiers'' 50 0 2946 (JStr ''t0k3n'')))
   \<and> files token_world ''/srv/dkey/api_responses.json'' = None
   \<and> result_of (search_products (shop_env 0 []) [''Amplifiers''] 2946 token_world) = Some (Inr JNull)
   \<and> file_after (search_products (shop_env 0 []) [''Amplifiers''] 2946 token_world)
        ''/srv/dkey/api_responses.json''
     = Some (Json (JList [batch_data (shop_env 0 []) (JList []) 0 50 0
          (emit (Http (KeywordSearch ''Amplifiers'' 50 0 2946 (JStr ''t0k3n''))) token_world)]))
   \<and> field (batch_data (shop_env 0 []) (JList []) 0 50 0
          (emit (Http (KeywordSearch ''Amplifiers'' 50 0 2946 (JStr ''t0k3n''))) token_world))
        ''products'' = Some (JList [])"
proof -
  let ?e = "shop_env 0 []"
  let ?req = "KeywordSearch ''Amplifiers'' 50 0 2946 (JStr ''t0k3n'')"
  have a: "page_reports 0 (http ?e (clock token_world) ?req)"
    by (rule shop_env_reports)
  have d: "files token_world (token_file_path ?e) = Some (Json demo_token)"
    by (rule token_world_cached) (simp add: shop_env_simps)
  have sp: "search_pages ?e ''Amplifiers'' 2946 50 0 token_world
            = Some (process_products ?e (products_of (response_body (http ?e (clock token_world) ?req)))
                      0 50 (emit (Http ?req) token_world))"
    using a _ d demo_token_value by (rule search_pages_single_page) simp
  have po: "products_of (response_body (http ?e (clock token_world) ?req)) = JList []"
    by (simp add: shop_env_simps products_of_def)
  have pp: "process_products ?e (JList []) 0 50 (emit (Http ?req) token_world)
            = (Inr JNull,
               (emit (Http ?req) token_world)
                 \<lparr>files := (files (emit (Http ?req) token_world))(''/srv/dkey/api_responses.json'' \<mapsto>
                      Json (JList [batch_data ?e (JList []) 0 50 0 (emit (Http ?req) token_world)])),
                  clock := Suc (clock (emit (Http ?req) token_world))\<rparr>)"
    by (simp add: process_products_def store_batch_def json_dump_def load_existing_def
        json_file_path_def shop_env_simps emit_def token_world_def empty_world_def)
  have run: "search_products ?e [''Amplifiers''] 2946 token_world
             = Some (Inr JNull,
               (emit (Http ?req) token_world)
                 \<lparr>files := (files (emit (Http ?req) token_world))(''/srv/dkey/api_responses.json'' \<mapsto>
                      Json (JList [batch_data ?e (JList []) 0 50 0 (emit (Http ?req) token_world)])),
                  clock := Suc (clock (emit (Http ?req) token_world))\<rparr>)"
    by (simp add: sp po pp)
  have c1: "result_of (search_products ?e [''Amplifiers''] 2946 token_world) = Some (Inr JNull)"
    by (simp only: run) (simp add: result_of_def)
  have c2: "file_after (search_products ?e [''Amplifiers''] 2946 token_world)
              ''/srv/dkey/api_responses.json''
            = Some (Json (JList [batch_data ?e (JList []) 0 50 0 (emit (Http ?req) token_world)]))"
    by (simp only: run) (simp add: file_after_def)
  have c3: "field (batch_data ?e (JList []) 0 50 0 (emit (Http ?req) token_world)) ''products''
            = Some (JList [])"
    by (simp add: batch_data_def)
  have c0: "files token_world ''/srv/dkey/api_responses.json'' = None"
    by (simp add: token_world_def empty_world_def)
  show ?thesis
    by (intro conjI) (rule a c0 c1 c2 c3)+
qed

end
